theory Spec2Isabelle
  imports Main "HOL-Library.Word" "HOL-Library.List_Lexorder"
begin

section \<open>The exercise scaffolding script \<open>create-exercise.js\<close>\<close>

text \<open>
  The script is one sequential Node.js program. Its pure parts (the allocator of the
  next exercise number, the derived names, the rewrite of the \<open>scripts\<close> object and
  the README template) are embedded as HOL functions; its control flow, with the calls
  to the file system, the Angular generator and the console, is embedded as a function
  from the answers of the environment to the list of calls the program makes and its
  exit status.

  Conventions of the embedding.
  \<^item> A JavaScript string is the list of its UTF-16 code units. The default comparison
    of \<open>Array.prototype.sort\<close> is the lexicographic order on these lists.
  \<^item> A JavaScript number that holds a sequence number or a port is a non-negative
    integer that a double can hold, or \<open>Infinity\<close>. Every arithmetic result is rounded
    to the nearest double, ties to the even mantissa, as IEEE 754 has it.
\<close>

subsection \<open>Strings\<close>

type_synonym jsString = "16 word list"

text \<open>A string literal of the source: its characters are ASCII, one code unit each.\<close>

definition js :: "string \<Rightarrow> jsString" where
  "js s = map of_char s"

definition startsWith :: "jsString \<Rightarrow> jsString \<Rightarrow> bool" where
  "startsWith s p = (take (length p) s = p)"

text \<open>The regular expression class \<open>\d\<close>: the ten ASCII digits, \<open>0x30\<close> to \<open>0x39\<close>.\<close>

definition isDigit :: "16 word \<Rightarrow> bool" where
  "isDigit c = (48 \<le> c \<and> c \<le> 57)"

definition digitValue :: "16 word \<Rightarrow> nat" where
  "digitValue c = unat c - 48"

definition digitChar :: "nat \<Rightarrow> 16 word" where
  "digitChar d = js ''0123456789'' ! d"

text \<open>
  The number a string of decimal digits denotes, positionally: the reading of
  "numeric value" that the statements about \<open>parseInt\<close> and \<open>String\<close> refer to.
\<close>

definition numericValue :: "jsString \<Rightarrow> nat" where
  "numericValue ds = (\<Sum>i<length ds. digitValue (ds ! i) * 10 ^ (length ds - Suc i))"

text \<open>The decimal digits of a natural number, without a leading zero.\<close>

fun decimal :: "nat \<Rightarrow> jsString" where
  "decimal n = (if n < 10 then [digitChar n] else decimal (n div 10) @ [digitChar (n mod 10)])"

declare decimal.simps [simp del]

text \<open>\<open>s.padStart(w, c)\<close> with a fill string of the single code unit \<open>c\<close>.\<close>

definition padStart :: "nat \<Rightarrow> 16 word \<Rightarrow> jsString \<Rightarrow> jsString" where
  "padStart w c s = replicate (w - length s) c @ s"

subsection \<open>Numbers\<close>

text \<open>
  The values a JavaScript number takes in this program: the non-negative integers that
  are doubles, and \<open>Infinity\<close>.
\<close>

datatype number = Number nat | Infinity

text \<open>
  Rounding a natural number to the nearest double. Below \<open>2^53\<close> every integer is a
  double. From there on the 53 leading bits are kept: \<open>shift c\<close> is the number of bits
  that are cut off, a remainder above the half rounds up, the half rounds to the even
  mantissa, and a result from \<open>2^1024\<close> on is \<open>Infinity\<close>.
\<close>

fun shift :: "nat \<Rightarrow> nat" where
  "shift c = (if c < 9007199254740992 then 0 else Suc (shift (c div 2)))"

declare shift.simps [simp del]

definition toNumber :: "nat \<Rightarrow> number" where
  "toNumber c =
     (let e = shift c; q = c div 2 ^ e; r = c mod 2 ^ e;
          m = (if 2 ^ e < 2 * r \<or> (2 * r = 2 ^ e \<and> odd q) then q + 1 else q)
      in if m * 2 ^ e < 2 ^ 1024 then Number (m * 2 ^ e) else Infinity)"

text \<open>\<open>x + y\<close>, \<open>Math.max(x, y)\<close> and \<open>x < y\<close> on these values.\<close>

fun addNumber :: "number \<Rightarrow> number \<Rightarrow> number" where
  "addNumber (Number a) (Number b) = toNumber (a + b)"
| "addNumber x y = Infinity"

fun maxNumber :: "number \<Rightarrow> number \<Rightarrow> number" where
  "maxNumber (Number a) (Number b) = Number (max a b)"
| "maxNumber x y = Infinity"

fun lessNumber :: "number \<Rightarrow> number \<Rightarrow> bool" where
  "lessNumber (Number a) (Number b) = (a < b)"
| "lessNumber (Number a) Infinity = True"
| "lessNumber Infinity y = False"

text \<open>
  \<open>parseInt\<close> on the text of a capture group \<open>(\d+)\<close>: the argument is a non-empty
  string of digits. \<open>mathInt\<close> is the integer the digits denote in base ten, leading
  zeros allowed, and the result is the double nearest to it. (For more than 20
  significant digits the language lets an implementation round less exactly; Node.js
  rounds exactly.)
\<close>

definition mathInt :: "jsString \<Rightarrow> nat" where
  "mathInt ds = foldl (\<lambda>n c. 10 * n + digitValue c) 0 ds"

definition parseInt :: "jsString \<Rightarrow> number" where
  "parseInt ds = toNumber (mathInt ds)"

text \<open>
  \<open>String(x)\<close>. The digits printed for a double \<open>v\<close> are the shortest decimal digits
  that still read back as \<open>v\<close>, followed by zeros. \<open>pick v p\<close> looks for a multiple of
  \<open>10^p\<close> that rounds to \<open>v\<close>: if there is one, then one of the two multiples next to
  \<open>v\<close> is one, and the nearer is taken (the even one at equal distance).
  \<open>shortest v p best\<close> raises \<open>p\<close> as long as a multiple is found; none is found any
  more once \<open>10^p\<close> exceeds \<open>10 * v\<close>. Below \<open>10^21\<close> the result is printed in full,
  from there on in exponent notation.
\<close>

definition pick :: "nat \<Rightarrow> nat \<Rightarrow> nat option" where
  "pick v p =
     (let lo = (v div 10 ^ p) * 10 ^ p; hi = lo + 10 ^ p;
          okLo = (toNumber lo = Number v); okHi = (toNumber hi = Number v)
      in if okLo \<and> okHi then
           Some (if v - lo < hi - v then lo
                 else if hi - v < v - lo then hi
                 else if even (v div 10 ^ p) then lo else hi)
         else if okLo then Some lo
         else if okHi then Some hi
         else None)"

function shortest :: "nat \<Rightarrow> nat \<Rightarrow> nat \<Rightarrow> nat" where
  "shortest v p best =
     (if 10 * v < 10 ^ p then best
      else case pick v p of None \<Rightarrow> best | Some c \<Rightarrow> shortest v (Suc p) c)"
  by pat_completeness auto
termination
proof (relation "measure (\<lambda>(v, p, best). 10 * v + 1 - p)")
  show "wf (measure (\<lambda>(v, p, best). 10 * v + 1 - p))" by simp
next
  fix v p :: nat and best x2 :: nat
  assume "\<not> 10 * v < 10 ^ p"
  moreover have "p < 10 ^ p" by (induction p) (simp_all add: Suc_lessI)
  ultimately show "((v, Suc p, x2), v, p, best) \<in> measure (\<lambda>(v, p, best). 10 * v + 1 - p)"
    by simp
qed

declare shortest.simps [simp del]

definition stripZeros :: "jsString \<Rightarrow> jsString" where
  "stripZeros ds = rev (dropWhile (\<lambda>c. c = 48) (rev ds))"

definition exponential :: "nat \<Rightarrow> jsString" where
  "exponential c =
     (let ds = decimal c; s = stripZeros ds; e = decimal (length ds - 1)
      in if length s = 1 then s @ js ''e+'' @ e
         else take 1 s @ js ''.'' @ drop 1 s @ js ''e+'' @ e)"

definition String_of :: "number \<Rightarrow> jsString" where
  "String_of x =
     (case x of
        Infinity \<Rightarrow> js ''Infinity''
      | Number v \<Rightarrow>
          if v = 0 then js ''0''
          else (let c = shortest v 1 v
                in if c < 10 ^ 21 then decimal c else exponential c))"

subsection \<open>The identifier allocator (lines 45 to 65)\<close>

text \<open>
  \<open>dir.match(/^exercise-(\d+)-/)\<close>: the result is the text of the capture group, or
  \<open>None\<close> for JavaScript's \<open>null\<close>. The group is greedy and must be followed by a
  hyphen, so it is the longest run of digits after the prefix; giving back a digit
  never helps, since the character after a shorter run is a digit and not a hyphen.
\<close>

definition match_exercise :: "jsString \<Rightarrow> jsString option" where
  "match_exercise dir =
     (if startsWith dir (js ''exercise-'') then
        (let rest = drop (length (js ''exercise-'')) dir; ds = takeWhile isDigit rest in
         if ds \<noteq> [] \<and> startsWith (dropWhile isDigit rest) (js ''-'') then Some ds else None)
      else None)"

text \<open>The callback of \<open>.map\<close>: \<open>match ? parseInt(match[1]) : 0\<close>.\<close>

definition exerciseNumber :: "jsString \<Rightarrow> number" where
  "exerciseNumber dir = (case match_exercise dir of Some ds \<Rightarrow> parseInt ds | None \<Rightarrow> Number 0)"

text \<open>
  The number an entry carries, before any rounding: the numeric value of the digits of
  an entry \<open>exercise-<digits>-...\<close>, and 0 for any other entry.
\<close>

definition exerciseValue :: "jsString \<Rightarrow> nat" where
  "exerciseValue dir = (case match_exercise dir of Some ds \<Rightarrow> numericValue ds | None \<Rightarrow> 0)"

text \<open>
  The listing of the projects directory: \<open>None\<close> when \<open>fs.existsSync\<close> answers false,
  otherwise the names \<open>fs.readdirSync\<close> returns. \<open>Math.max(...projects)\<close> is only
  evaluated on a non-empty array, where it is the fold of \<open>max\<close> over the elements.
  The elements are passed as the arguments of one call; an engine takes only so many
  arguments (\<open>limit\<close>, a property of the engine and its stack) and throws a
  \<open>RangeError\<close> beyond, here with the message of Node.js. \<open>Inl\<close> is that error.
\<close>

definition rangeError :: jsString where
  "rangeError = js ''Maximum call stack size exceeded''"

definition nextNumber :: "nat \<Rightarrow> jsString list option \<Rightarrow> jsString + number" where
  "nextNumber limit listing =
     (case listing of
        None \<Rightarrow> Inr (Number 1)
      | Some entries \<Rightarrow>
          (case map exerciseNumber (filter (\<lambda>dir. startsWith dir (js ''exercise-'')) entries) of
             [] \<Rightarrow> Inr (Number 1)
           | p # ps \<Rightarrow>
               if limit < length (p # ps) then Inl rangeError
               else Inr (addNumber (fold maxNumber ps p) (Number 1))))"

definition paddedNumber :: "number \<Rightarrow> jsString" where
  "paddedNumber n = padStart 2 48 (String_of n)"

definition fullExerciseName :: "jsString \<Rightarrow> jsString \<Rightarrow> jsString" where
  "fullExerciseName padded exerciseName = js ''exercise-'' @ padded @ js ''-'' @ exerciseName"

definition port :: "number \<Rightarrow> number" where
  "port n = addNumber (Number 4200) n"

subsection \<open>JavaScript objects with string keys\<close>

text \<open>
  The \<open>scripts\<close> object, as \<open>JSON.parse\<close> builds it and as \<open>{}\<close> followed by
  assignments builds it: its own properties, all enumerable data properties, in the
  order in which \<open>Object.keys\<close> and \<open>JSON.stringify\<close> visit them. That order is fixed
  by the language: first the keys that are array indices, by ascending numeric value,
  then the other keys in the order of their creation.

  An array index is the canonical decimal string of an integer from 0 to \<open>2^32 - 2\<close>.
\<close>

type_synonym 'v object = "(jsString \<times> 'v) list"

definition isArrayIndex :: "jsString \<Rightarrow> bool" where
  "isArrayIndex k =
     (k \<noteq> [] \<and> list_all isDigit k \<and> decimal (mathInt k) = k \<and> mathInt k < 4294967295)"

definition Object_keys :: "'v object \<Rightarrow> jsString list" where
  "Object_keys obj = map fst obj"

text \<open>
  \<open>obj[key]\<close> for a key that \<open>Object.keys(obj)\<close> lists: the value of the own property.
  \<open>None\<close> stands for the case where the object has no own property of that name.
\<close>

definition getOwn :: "'v object \<Rightarrow> jsString \<Rightarrow> 'v option" where
  "getOwn obj key = map_of obj key"

text \<open>The place of a new array-index key: after the array indices of smaller value.\<close>

fun insertIndex :: "jsString \<Rightarrow> 'v \<Rightarrow> 'v object \<Rightarrow> 'v object" where
  "insertIndex k v [] = [(k, v)]"
| "insertIndex k v ((k', v') # ps) =
     (if isArrayIndex k' \<and> mathInt k' < mathInt k then (k', v') # insertIndex k v ps
      else (k, v) # (k', v') # ps)"

text \<open>
  The assignment \<open>obj[key] = value\<close> on an object whose prototype is
  \<open>Object.prototype\<close>. An own property keeps its place and takes the new value.
  Otherwise the property is looked up on the prototype, and the one name there that is
  not a plain writable property is \<open>__proto__\<close>, an accessor: its setter is called
  instead, and it creates no own property (it changes the prototype when the value is an
  object, and does nothing for a string). For every other name a new own property is
  created, in the place the ordering above gives it.
\<close>

definition setProperty :: "'v object \<Rightarrow> jsString \<Rightarrow> 'v \<Rightarrow> 'v object" where
  "setProperty obj key v =
     (if key \<in> set (Object_keys obj) then
        map (\<lambda>(k', v'). if k' = key then (k', v) else (k', v')) obj
      else if key = js ''__proto__'' then obj
      else if isArrayIndex key then insertIndex key v obj
      else obj @ [(key, v)])"

text \<open>
  What \<open>JSON.parse\<close> can return for an object: keys pairwise distinct, the array
  indices first and by ascending value. (It defines own properties directly, so a
  member named \<open>__proto__\<close> becomes an own property like any other.)
\<close>

fun indicesFirst :: "jsString list \<Rightarrow> bool" where
  "indicesFirst [] = True"
| "indicesFirst [k] = True"
| "indicesFirst (k # k' # ks) =
     ((if isArrayIndex k' then isArrayIndex k \<and> mathInt k < mathInt k' else True)
      \<and> indicesFirst (k' # ks))"

definition wellFormed :: "'v object \<Rightarrow> bool" where
  "wellFormed obj = (distinct (Object_keys obj) \<and> indicesFirst (Object_keys obj))"

subsection \<open>The manifest update (lines 88 to 104)\<close>

text \<open>
  Lines 97 to 101: a fresh object receives the properties of \<open>scripts\<close> in the order of
  \<open>Object.keys(scripts).sort()\<close>. The default \<open>sort\<close> compares strings by code units;
  \<open>forEach\<close> visits the sorted keys from left to right. Every visited key is an own
  property of \<open>scripts\<close>, so the \<open>None\<close> branch is never taken.
\<close>

definition sortScripts :: "'v object \<Rightarrow> 'v object" where
  "sortScripts scripts =
     fold (\<lambda>key sortedScripts.
            case getOwn scripts key of
              Some v \<Rightarrow> setProperty sortedScripts key v
            | None \<Rightarrow> sortedScripts)
          (sort (Object_keys scripts)) []"

definition shortName :: "jsString \<Rightarrow> jsString" where
  "shortName padded = js ''ex'' @ padded"

definition startCommand :: "jsString \<Rightarrow> number \<Rightarrow> jsString" where
  "startCommand full p = js ''ng serve '' @ full @ js '' --port '' @ String_of p"

definition buildCommand :: "jsString \<Rightarrow> jsString" where
  "buildCommand full = js ''ng build '' @ full"

text \<open>Lines 92 to 101: the two assignments, then the rebuild in sorted order.\<close>

definition updateScripts ::
  "jsString \<Rightarrow> jsString \<Rightarrow> number \<Rightarrow> jsString object \<Rightarrow> jsString object" where
  "updateScripts padded full p scripts =
     (let scripts1 = setProperty scripts (js ''start:'' @ shortName padded) (startCommand full p);
          scripts2 = setProperty scripts1 (js ''build:'' @ shortName padded) (buildCommand full)
      in sortScripts scripts2)"

text \<open>
  The parsed manifest: its \<open>scripts\<close> object, and whatever else the file holds as the
  extension of the record, which the program never touches.
\<close>

record manifest =
  scripts :: "jsString object"

definition updateManifest ::
  "jsString \<Rightarrow> jsString \<Rightarrow> number \<Rightarrow> 'a manifest_scheme \<Rightarrow> 'a manifest_scheme" where
  "updateManifest padded full p packageJson =
     packageJson\<lparr>scripts := updateScripts padded full p (scripts packageJson)\<rparr>"

subsection \<open>The README template (lines 112 to 141)\<close>

text \<open>
  \<open>toUpperCase\<close>, as the program uses it: on the result of \<open>charAt(0)\<close>, a string of at
  most one code unit. An ASCII code unit changes if it is one of the 26 small letters.
  For the other code units the result is what the case tables of Unicode say, which
  are part of the engine and not of the source: they are the parameter \<open>upper\<close>, from a
  code unit to the string that replaces it.
\<close>

definition asciiUpper :: "16 word \<Rightarrow> 16 word" where
  "asciiUpper c = (if 97 \<le> c \<and> c \<le> 122 then c - 32 else c)"

definition toUpperCase :: "(16 word \<Rightarrow> jsString) \<Rightarrow> jsString \<Rightarrow> jsString" where
  "toUpperCase upper s = concat (map (\<lambda>c. if c < 128 then [asciiUpper c] else upper c) s)"

text \<open>\<open>s.charAt(0)\<close>: the first code unit as a string, the empty string when there is none.\<close>

definition charAt0 :: "jsString \<Rightarrow> jsString" where
  "charAt0 s = take 1 s"

text \<open>\<open>s.slice(1)\<close> and \<open>s.replace(/-/g, ' ')\<close>.\<close>

definition slice1 :: "jsString \<Rightarrow> jsString" where
  "slice1 s = drop 1 s"

definition replaceHyphens :: "jsString \<Rightarrow> jsString" where
  "replaceHyphens s = map (\<lambda>c. if c = 45 then 32 else c) s"

text \<open>The text of the heading, after the Markdown marker \<open>#\<close> of the first line.\<close>

definition heading :: "(16 word \<Rightarrow> jsString) \<Rightarrow> jsString \<Rightarrow> jsString \<Rightarrow> jsString" where
  "heading upper padded exerciseName =
     js ''Exercise '' @ padded @ js '': '' @
     toUpperCase upper (charAt0 exerciseName) @ replaceHyphens (slice1 exerciseName)"

definition exerciseReadme ::
  "(16 word \<Rightarrow> jsString) \<Rightarrow> jsString \<Rightarrow> jsString \<Rightarrow> number \<Rightarrow> jsString" where
  "exerciseReadme upper padded exerciseName p =
     js ''# '' @ heading upper padded exerciseName @
     js ''\<newline>\<newline>## Description\<newline>\<newline>Add your exercise description here.\<newline>\<newline>## Running This Exercise\<newline>\<newline>```bash\<newline>npm run start:'' @
     shortName padded @
     js ''\<newline>```\<newline>\<newline>Then open http://localhost:'' @ String_of p @
     js '' in your browser.\<newline>\<newline>## Learning Objectives\<newline>\<newline>- Objective 1\<newline>- Objective 2\<newline>- Objective 3\<newline>\<newline>## Tasks\<newline>\<newline>- [ ] Task 1\<newline>- [ ] Task 2\<newline>- [ ] Task 3\<newline>\<newline>## Resources\<newline>\<newline>- [Angular Documentation](https://angular.dev)\<newline>''"

subsection \<open>The program and its environment\<close>

text \<open>
  Paths are kept as the program builds them: \<open>__dirname\<close> and \<open>path.join\<close> of a path
  and a name.
\<close>

datatype path = Dirname | Join path jsString

definition projectsDir :: path where
  "projectsDir = Join Dirname (js ''projects'')"

definition packageJsonPath :: path where
  "packageJsonPath = Join Dirname (js ''package.json'')"

definition readmePath :: "jsString \<Rightarrow> path" where
  "readmePath full = Join (Join projectsDir full) (js ''README.md'')"

text \<open>
  What is written to a file: the text \<open>JSON.stringify(m, null, 2) + '\n'\<close> of a manifest
  \<open>m\<close>, kept as \<open>m\<close> itself, or a plain text.
\<close>

datatype 'm fileText = JsonText 'm | PlainText jsString

text \<open>
  The calls the program makes to the outside, in the order it makes them. A call that
  throws is recorded like one that returns; what follows it in the list tells them
  apart. \<open>Uncaught\<close> is an exception that reaches the top level: Node.js reports it and
  ends the process with status 1.
\<close>

datatype 'm event =
    ConsoleLog jsString
  | ConsoleError jsString
  | ExistsSync path
  | ReaddirSync path
  | ExecSync jsString
  | ReadFileSync path
  | WriteFileSync path "'m fileText"
  | Uncaught jsString

text \<open>
  The answers of the environment. \<open>argv2\<close> is \<open>process.argv[2]\<close>, \<open>None\<close> for
  \<open>undefined\<close>. A call that can throw answers with the message of the error: \<open>Inl\<close>
  for the directory listing and for reading and parsing the manifest (a manifest that
  parses but has no \<open>scripts\<close> object makes line 93 throw at once and is counted here
  too), \<open>Some\<close> for the generator and for the two writes. The engine adds its limit
  on the arguments of a call and its case tables.
\<close>

record 'a env =
  argv2 :: "jsString option"
  existsSync :: "path \<Rightarrow> bool"
  readdirSync :: "path \<Rightarrow> jsString + jsString list"
  execSync :: "jsString \<Rightarrow> jsString option"
  readManifest :: "path \<Rightarrow> jsString + 'a manifest_scheme"
  writeFileSync :: "path \<Rightarrow> 'a manifest_scheme fileText \<Rightarrow> jsString option"
  argumentLimit :: nat
  unicodeUpper :: "16 word \<Rightarrow> jsString"

record 'a run =
  trace :: "'a manifest_scheme event list"
  exitCode :: nat

text \<open>Lines 34 to 37.\<close>

definition usageError :: "'a run" where
  "usageError =
     \<lparr>trace = [ConsoleError (js ''Error: Please provide an exercise name''),
               ConsoleError (js ''Usage: npm run create-exercise <exercise-name>''),
               ConsoleError (js ''Example: npm run create-exercise routing'')],
      exitCode = 1\<rparr>"

definition generateCommand :: "jsString \<Rightarrow> jsString" where
  "generateCommand full =
     js ''ng generate application '' @ full @ js '' --routing=false --style=css''"

text \<open>
  Lines 151 to 161. The symbols in front of three of the lines are written as their
  code units.
\<close>

definition summary :: "jsString \<Rightarrow> jsString \<Rightarrow> number \<Rightarrow> 'm event list" where
  "summary padded full p =
     [ConsoleLog (js ''\<newline>'' @ [0x2705] @ js '' Exercise created successfully!\<newline>''),
      ConsoleLog ([0xD83D, 0xDCCB] @ js '' Summary:''),
      ConsoleLog (js ''   Name: '' @ full),
      ConsoleLog (js ''   Port: '' @ String_of p),
      ConsoleLog (js ''   Start command: npm run start:'' @ shortName padded),
      ConsoleLog (js ''   Build command: npm run build:'' @ shortName padded),
      ConsoleLog (js ''   Location: projects/'' @ full),
      ConsoleLog (js ''\<newline>'' @ [0xD83C, 0xDFAF] @ js '' Next steps:''),
      ConsoleLog (js ''   1. Edit projects/'' @ full @ js ''/README.md with exercise details''),
      ConsoleLog (js ''   2. Run: npm run start:'' @ shortName padded),
      ConsoleLog (js ''   3. Start coding!\<newline>'')]"

text \<open>
  The body of \<open>try\<close> (lines 77 to 161): the calls made, and the message of the error
  that ended it, if one did.
\<close>

definition tryBlock ::
  "'a env \<Rightarrow> jsString \<Rightarrow> jsString \<Rightarrow> jsString \<Rightarrow> number \<Rightarrow>
     'a manifest_scheme event list \<times> jsString option"
where
  "tryBlock e exerciseName padded full p =
     (let t1 = [ConsoleLog (js ''Step 1: Generating Angular application...''),
                ExecSync (generateCommand full)]
      in case execSync e (generateCommand full) of
        Some err \<Rightarrow> (t1, Some err)
      | None \<Rightarrow>
         (let t2 = t1 @ [ConsoleLog (js ''\<newline>Step 2: Updating package.json...''),
                         ReadFileSync packageJsonPath]
          in case readManifest e packageJsonPath of
            Inl err \<Rightarrow> (t2, Some err)
          | Inr packageJson \<Rightarrow>
             (let manifestText = JsonText (updateManifest padded full p packageJson);
                  t3 = t2 @ [WriteFileSync packageJsonPath manifestText]
              in case writeFileSync e packageJsonPath manifestText of
                Some err \<Rightarrow> (t3, Some err)
              | None \<Rightarrow>
                 (let readme = PlainText (exerciseReadme (unicodeUpper e) padded exerciseName p);
                      t4 = t3 @ [ConsoleLog (js ''Step 3: Creating exercise README...''),
                                 WriteFileSync (readmePath full) readme]
                  in case writeFileSync e (readmePath full) readme of
                    Some err \<Rightarrow> (t4, Some err)
                  | None \<Rightarrow> (t4 @ summary padded full p, None)))))"

text \<open>
  Lines 62 to 167, once the next number is known: the derived names, the two
  announcements, the \<open>try\<close> block and its handler. \<open>console.error\<close> joins its two
  arguments with a space.
\<close>

definition announcement :: "jsString \<Rightarrow> number \<Rightarrow> 'm event list" where
  "announcement full p =
     [ConsoleLog (js ''\<newline>'' @ [0xD83D, 0xDE80] @ js '' Creating new exercise: '' @ full),
      ConsoleLog ([0xD83D, 0xDCCD] @ js '' Port: '' @ String_of p @ js ''\<newline>'')]"

definition failureReport :: "jsString \<Rightarrow> 'm event" where
  "failureReport err =
     ConsoleError (js ''\<newline>'' @ [0x274C] @ js '' Error creating exercise:'' @ js '' '' @ err)"

definition create :: "'a env \<Rightarrow> jsString \<Rightarrow> number \<Rightarrow> 'a run" where
  "create e exerciseName n =
     (let padded = paddedNumber n;
          full = fullExerciseName padded exerciseName;
          p = port n
      in case tryBlock e exerciseName padded full p of
        (t, None) \<Rightarrow> \<lparr>trace = announcement full p @ t, exitCode = 0\<rparr>
      | (t, Some err) \<Rightarrow>
          \<lparr>trace = announcement full p @ t @ [failureReport err], exitCode = 1\<rparr>)"

text \<open>
  Lines 48 and 49: the calls that look at the projects directory, and their outcome:
  the error of \<open>readdirSync\<close>, or the listing that \<open>nextNumber\<close> works on.
\<close>

definition readProjects ::
  "'a env \<Rightarrow> 'm event list \<times> (jsString + jsString list option)" where
  "readProjects e =
     (if existsSync e projectsDir then
        ([ExistsSync projectsDir, ReaddirSync projectsDir],
         (case readdirSync e projectsDir of
            Inl err \<Rightarrow> Inl err
          | Inr entries \<Rightarrow> Inr (Some entries)))
      else ([ExistsSync projectsDir], Inr None))"

text \<open>
  The whole script. The test \<open>!exerciseName\<close> holds for \<open>undefined\<close> and for the empty
  string. The directory is listed and the next number computed outside the \<open>try\<close>
  block, so an error of \<open>readdirSync\<close> or of the call of \<open>Math.max\<close> is not caught.
\<close>

definition main :: "'a env \<Rightarrow> 'a run" where
  "main e =
     (case argv2 e of
        None \<Rightarrow> usageError
      | Some exerciseName \<Rightarrow>
          if exerciseName = [] then usageError
          else
            (case readProjects e of
               (t, Inl err) \<Rightarrow> \<lparr>trace = t @ [Uncaught err], exitCode = 1\<rparr>
             | (t, Inr listing) \<Rightarrow>
                 (case nextNumber (argumentLimit e) listing of
                    Inl err \<Rightarrow> \<lparr>trace = t @ [Uncaught err], exitCode = 1\<rparr>
                  | Inr n \<Rightarrow>
                      (let r = create e exerciseName n
                       in r\<lparr>trace := t @ trace r\<rparr>))))"

text \<open>The calls that change or read a file, and the side effects of any kind.\<close>

fun isFileAccess :: "'m event \<Rightarrow> bool" where
  "isFileAccess (ReadFileSync f) = True"
| "isFileAccess (WriteFileSync f t) = True"
| "isFileAccess ev = False"

fun isSideEffect :: "'m event \<Rightarrow> bool" where
  "isSideEffect (ConsoleLog s) = False"
| "isSideEffect (ConsoleError s) = False"
| "isSideEffect (Uncaught s) = False"
| "isSideEffect ev = True"

section \<open>Properties\<close>

subsection \<open>Digits and decimal numbers\<close>

lemma less_ten_cases:
  "(d::nat) < 10 \<Longrightarrow> d = 0 \<or> d = 1 \<or> d = 2 \<or> d = 3 \<or> d = 4 \<or> d = 5 \<or> d = 6 \<or> d = 7 \<or> d = 8 \<or> d = 9"
  by arith

lemma isDigit_digitChar: "d < 10 \<Longrightarrow> isDigit (digitChar d)"
  by (drule less_ten_cases) (auto simp: isDigit_def digitChar_def js_def)

lemma digitValue_digitChar: "d < 10 \<Longrightarrow> digitValue (digitChar d) = d"
  by (drule less_ten_cases) (auto simp: digitValue_def digitChar_def js_def)

lemma digitChar_zero: "digitChar 0 = 48"
  by (simp add: digitChar_def js_def)

lemma mathInt_snoc: "mathInt (ds @ [c]) = 10 * mathInt ds + digitValue c"
  by (simp add: mathInt_def)

lemma decimal_digits: "list_all isDigit (decimal n)"
proof (induction n rule: decimal.induct)
  case (1 n)
  show ?case
  proof (cases "n < 10")
    case True
    then show ?thesis by (simp add: decimal.simps [of n] isDigit_digitChar)
  next
    case False
    with 1 show ?thesis by (simp add: decimal.simps [of n] isDigit_digitChar)
  qed
qed

lemma decimal_nonempty: "decimal n \<noteq> []"
  by (simp add: decimal.simps [of n])

lemma mathInt_decimal: "mathInt (decimal n) = n"
proof (induction n rule: decimal.induct)
  case (1 n)
  show ?case
  proof (cases "n < 10")
    case True
    then show ?thesis by (simp add: decimal.simps [of n] mathInt_def digitValue_digitChar)
  next
    case False
    with 1 show ?thesis by (simp add: decimal.simps [of n] mathInt_snoc digitValue_digitChar)
  qed
qed

lemma mathInt_zeros: "mathInt (replicate k 48 @ ds) = mathInt ds"
proof -
  have "foldl (\<lambda>n c. 10 * n + digitValue c) 0 (replicate k 48) = 0"
    by (induction k) (simp_all add: digitValue_def)
  then show ?thesis by (simp add: mathInt_def)
qed

lemma length_decimal:
  "length (decimal n) = (if n < 10 then 1 else Suc (length (decimal (n div 10))))"
  by (subst decimal.simps) simp

lemma numericValue_snoc: "numericValue (ds @ [c]) = 10 * numericValue ds + digitValue c"
proof -
  have pw: "(10::nat) ^ (length ds - i) = 10 * 10 ^ (length ds - Suc i)" if "i < length ds" for i
    using that by (simp add: Suc_diff_Suc flip: power_Suc)
  have "(\<Sum>i<length ds. digitValue ((ds @ [c]) ! i) * 10 ^ (length ds - i))
      = (\<Sum>i<length ds. 10 * (digitValue (ds ! i) * 10 ^ (length ds - Suc i)))"
    by (rule sum.cong) (simp_all add: nth_append pw)
  then show ?thesis
    by (simp add: numericValue_def sum_distrib_left)
qed

lemma mathInt_numericValue: "mathInt ds = numericValue ds"
proof (induction ds rule: rev_induct)
  case Nil
  show ?case by (simp add: mathInt_def numericValue_def)
next
  case (snoc c ds)
  then show ?case by (simp add: mathInt_snoc numericValue_snoc)
qed

lemma decimal_no_leading_zero: "(hd (decimal n) = 48) = (n = 0)"
proof (induction n rule: decimal.induct)
  case (1 n)
  show ?case
  proof (cases "n < 10")
    case True
    then have "(digitChar n = 48) = (n = 0)"
      using digitValue_digitChar [of n] by (auto simp: digitValue_def digitChar_zero)
    with True show ?thesis by (simp add: decimal.simps [of n])
  next
    case False
    then have "n div 10 \<noteq> 0" by simp
    with False 1 show ?thesis
      by (simp add: decimal.simps [of n] decimal_nonempty)
  qed
qed

subsection \<open>Rounding to a double\<close>

lemma shift_small: "c < 9007199254740992 \<Longrightarrow> shift c = 0"
  by (simp add: shift.simps [of c])

lemma shift_large:
  "9007199254740992 \<le> c \<Longrightarrow>
     0 < shift c \<and> 4503599627370496 \<le> c div 2 ^ shift c"
proof (induction c rule: shift.induct)
  case (1 c)
  then have s: "shift c = Suc (shift (c div 2))"
    by (simp add: shift.simps [of c])
  show ?case
  proof (cases "c div 2 < 9007199254740992")
    case True
    then have "shift (c div 2) = 0" by (rule shift_small)
    with s 1 show ?thesis by simp
  next
    case False
    with 1 have "4503599627370496 \<le> (c div 2) div 2 ^ shift (c div 2)"
      by simp
    then show ?thesis
      by (simp add: s div_mult2_eq)
  qed
qed

lemma toNumber_exact: "c \<le> 9007199254740992 \<Longrightarrow> toNumber c = Number c"
proof (cases "c < 9007199254740992")
  case True
  then have "c < 2 ^ 1024"
    by (rule less_trans) simp
  with True show ?thesis
    by (simp add: toNumber_def shift_small)
next
  case False
  moreover assume "c \<le> 9007199254740992"
  ultimately have "c = 9007199254740992" by simp
  then show ?thesis
    by (simp add: toNumber_def shift.simps Let_def split del: if_split)
qed

lemma toNumber_large:
  assumes "9007199254740992 \<le> c"
  shows "toNumber c = Infinity \<or> (\<exists>m. toNumber c = Number m \<and> 9007199254740992 \<le> m)"
proof -
  define e where "e = shift c"
  define q where "q = c div 2 ^ e"
  define m where "m = (if 2 ^ e < 2 * (c mod 2 ^ e) \<or> (2 * (c mod 2 ^ e) = 2 ^ e \<and> odd q)
    then q + 1 else q)"
  from shift_large [OF assms] have e: "0 < e" and q: "4503599627370496 \<le> q"
    by (simp_all add: e_def q_def)
  from q have "4503599627370496 \<le> m" by (simp add: m_def)
  moreover from e have "(2::nat) \<le> 2 ^ e"
    by (cases e) simp_all
  ultimately have "4503599627370496 * 2 \<le> m * 2 ^ e"
    by (rule mult_le_mono)
  then have big: "9007199254740992 \<le> m * 2 ^ e" by simp
  have "toNumber c = (if m * 2 ^ e < 2 ^ 1024 then Number (m * 2 ^ e) else Infinity)"
    by (simp add: toNumber_def Let_def m_def q_def e_def)
  with big show ?thesis by auto
qed

lemma toNumber_small_eq:
  assumes "toNumber c = Number v" and "v < 9007199254740992"
  shows "c = v"
proof (cases "c < 9007199254740992")
  case True
  with assms(1) show ?thesis by (simp add: toNumber_exact)
next
  case False
  then have "9007199254740992 \<le> c" by simp
  from toNumber_large [OF this] assms show ?thesis by auto
qed

lemma addNumber_exact:
  "a + b \<le> 9007199254740992 \<Longrightarrow> addNumber (Number a) (Number b) = Number (a + b)"
  by (simp add: toNumber_exact)

lemma addNumber_one_greater:
  assumes "n < 9007199254740992" and "n \<le> m"
  shows "lessNumber (Number n) (addNumber (Number m) (Number 1))"
proof (cases "m + 1 \<le> 9007199254740992")
  case True
  then have "toNumber (m + 1) = Number (m + 1)" by (rule toNumber_exact)
  with assms(2) show ?thesis by simp
next
  case False
  then have "9007199254740992 \<le> m + 1" by simp
  from toNumber_large [OF this] assms(1) show ?thesis by auto
qed

subsection \<open>Printing a number\<close>

lemma pick_valid: "pick v p = Some c \<Longrightarrow> toNumber c = Number v"
  by (auto simp: pick_def Let_def split: if_splits)

lemma shortest_valid:
  "toNumber best = Number v \<Longrightarrow> toNumber (shortest v p best) = Number v"
proof (induction v p best rule: shortest.induct)
  case (1 v p best)
  show ?case
  proof (cases "10 * v < 10 ^ p")
    case True
    with 1 show ?thesis by (simp add: shortest.simps [of v p best])
  next
    case False
    show ?thesis
    proof (cases "pick v p")
      case None
      with False 1 show ?thesis by (simp add: shortest.simps [of v p best])
    next
      case (Some c)
      from pick_valid [OF Some] "1.IH" [OF False Some] False Some show ?thesis
        by (simp add: shortest.simps [of v p best])
    qed
  qed
qed

lemma String_of_exact:
  assumes "v < 9007199254740992"
  shows "String_of (Number v) = decimal v"
proof (cases "v = 0")
  case True
  then show ?thesis by (simp add: String_of_def decimal.simps digitChar_def js_def)
next
  case False
  from assms have "toNumber v = Number v" by (simp add: toNumber_exact)
  from toNumber_small_eq [OF shortest_valid [OF this] assms]
  have "shortest v 1 v = v" .
  moreover from assms have "v < 10 ^ 21"
    by (rule less_trans) simp
  ultimately show ?thesis using False
    by (simp add: String_of_def)
qed

subsection \<open>The allocator\<close>

lemma startsWithD: "startsWith s p \<Longrightarrow> s = p @ drop (length p) s"
  unfolding startsWith_def by (metis append_take_drop_id)

lemma not_isDigit_hyphen: "\<not> isDigit 45"
  by (simp add: isDigit_def)

lemma match_exercise_pattern:
  assumes "ds \<noteq> []" and "list_all isDigit ds"
  shows "match_exercise (js ''exercise-'' @ ds @ js ''-'' @ rest) = Some ds"
proof -
  have all: "\<And>x. x \<in> set ds \<Longrightarrow> isDigit x"
    using assms(2) by (simp add: list_all_iff)
  have tw: "takeWhile isDigit (ds @ 45 # rest) = ds"
    using all by (simp add: takeWhile_append2 not_isDigit_hyphen)
  have dw: "dropWhile isDigit (ds @ 45 # rest) = 45 # rest"
    using all by (simp add: dropWhile_append2 not_isDigit_hyphen)
  show ?thesis
    using assms(1) tw dw by (simp add: match_exercise_def startsWith_def js_def)
qed

lemma match_exercise_SomeD:
  assumes "match_exercise d = Some ds"
  shows "ds \<noteq> [] \<and> list_all isDigit ds \<and> (\<exists>rest. d = js ''exercise-'' @ ds @ js ''-'' @ rest)"
proof -
  from assms have pre: "startsWith d (js ''exercise-'')"
    by (auto simp: match_exercise_def split: if_splits)
  define r where "r = drop (length (js ''exercise-'')) d"
  from startsWithD [OF pre] have d: "d = js ''exercise-'' @ r"
    by (simp add: r_def)
  from assms pre have ds: "ds = takeWhile isDigit r" and ne: "ds \<noteq> []"
    and hy: "startsWith (dropWhile isDigit r) (js ''-'')"
    by (auto simp: match_exercise_def Let_def r_def split: if_splits)
  from startsWithD [OF hy]
  have "dropWhile isDigit r = js ''-'' @ drop (length (js ''-'')) (dropWhile isDigit r)" .
  then have "r = ds @ js ''-'' @ drop (length (js ''-'')) (dropWhile isDigit r)"
    using takeWhile_dropWhile_id [of isDigit r] ds by metis
  with d have "d = js ''exercise-'' @ ds @ js ''-'' @ drop (length (js ''-'')) (dropWhile isDigit r)"
    by simp
  moreover have "list_all isDigit ds"
    unfolding ds list_all_iff by (auto dest: set_takeWhileD)
  ultimately show ?thesis using ne by blast
qed

lemma exerciseValue_pattern:
  "ds \<noteq> [] \<Longrightarrow> list_all isDigit ds \<Longrightarrow>
     exerciseValue (js ''exercise-'' @ ds @ js ''-'' @ rest) = numericValue ds"
  by (simp add: exerciseValue_def match_exercise_pattern)

lemma exerciseValue_no_pattern:
  assumes "\<not> (\<exists>ds rest. ds \<noteq> [] \<and> list_all isDigit ds \<and> d = js ''exercise-'' @ ds @ js ''-'' @ rest)"
  shows "exerciseValue d = 0"
proof (cases "match_exercise d")
  case None
  then show ?thesis by (simp add: exerciseValue_def)
next
  case (Some ds)
  from match_exercise_SomeD [OF Some] assms show ?thesis by blast
qed

text \<open>An entry whose number is below \<open>2^53\<close> is read without rounding.\<close>

lemma exerciseNumber_exact:
  "exerciseValue d < 9007199254740992 \<Longrightarrow> exerciseNumber d = Number (exerciseValue d)"
  by (cases "match_exercise d")
     (simp_all add: exerciseNumber_def exerciseValue_def parseInt_def mathInt_numericValue
        toNumber_exact)

lemma fold_maxNumber_Number:
  "fold maxNumber (map Number ys) (Number a) = Number (fold max ys a)"
  by (induction ys arbitrary: a) (simp_all add: max.commute)

lemma fold_maxNumber_Infinity: "fold maxNumber xs Infinity = Infinity"
  by (induction xs) simp_all

lemma fold_maxNumber_has_Infinity:
  "Infinity \<in> set xs \<Longrightarrow> fold maxNumber xs acc = Infinity"
proof (induction xs arbitrary: acc)
  case Nil
  then show ?case by simp
next
  case (Cons x xs)
  show ?case
  proof (cases "x = Infinity")
    case True
    then show ?thesis by (simp add: fold_maxNumber_Infinity)
  next
    case False
    with Cons show ?thesis by simp
  qed
qed

lemma no_Infinity_map: "Infinity \<notin> set xs \<Longrightarrow> \<exists>ys. xs = map Number ys"
proof (induction xs)
  case Nil
  show ?case by simp
next
  case (Cons x xs)
  then obtain ys where "xs = map Number ys" by auto
  moreover from Cons.prems obtain n where "x = Number n" by (cases x) auto
  ultimately have "x # xs = map Number (n # ys)" by simp
  then show ?case by (rule exI)
qed

text \<open>\<open>Math.max\<close> of a non-empty array depends on the set of its elements only.\<close>

lemma fold_maxNumber_set:
  assumes "set (p # ps) = set (q # qs)"
  shows "fold maxNumber ps p = fold maxNumber qs q"
proof (cases "Infinity \<in> set (p # ps)")
  case True
  with assms have "Infinity \<in> set (q # qs)" by simp
  with True show ?thesis
    by (auto simp: fold_maxNumber_has_Infinity fold_maxNumber_Infinity)
next
  case False
  with assms have "Infinity \<notin> set (q # qs)" by simp
  from no_Infinity_map [OF this] obtain zs where zs: "q # qs = map Number zs" ..
  from no_Infinity_map [OF False] obtain ys where ys: "p # ps = map Number ys" ..
  from ys zs obtain a ys' b zs' where y: "ys = a # ys'" and z: "zs = b # zs'"
    by (cases ys; cases zs) auto
  from assms ys zs have "Number ` set ys = Number ` set zs"
    by (metis set_map)
  then have "set ys = set zs"
    by (simp add: inj_image_eq_iff inj_on_def)
  then have "Max (set (a # ys')) = Max (set (b # zs'))"
    by (simp add: y z)
  then have "fold max ys' a = fold max zs' b"
    by (simp only: Max.set_eq_fold)
  with ys zs y z show ?thesis
    by (simp add: fold_maxNumber_Number)
qed

lemma nextNumber_None: "nextNumber limit None = Inr (Number 1)"
  by (simp add: nextNumber_def)

lemma nextNumber_exact:
  assumes "length (filter (\<lambda>dir. startsWith dir (js ''exercise-'')) entries) \<le> limit"
    and "list_all (\<lambda>dir. exerciseValue dir < 9007199254740992)
           (filter (\<lambda>dir. startsWith dir (js ''exercise-'')) entries)"
  shows "nextNumber limit (Some entries) =
     Inr (Number
       (if filter (\<lambda>dir. startsWith dir (js ''exercise-'')) entries = [] then 1
        else Max (exerciseValue ` set (filter (\<lambda>dir. startsWith dir (js ''exercise-'')) entries)) + 1))"
proof (cases "filter (\<lambda>dir. startsWith dir (js ''exercise-'')) entries")
  case Nil
  then show ?thesis by (simp add: nextNumber_def)
next
  case (Cons f fs)
  let ?vs = "map exerciseValue fs" and ?v = "exerciseValue f"
  from assms(2) Cons have small: "\<forall>d\<in>set (f # fs). exerciseValue d < 9007199254740992"
    by (simp add: list_all_iff)
  then have n1: "exerciseNumber f = Number ?v"
    and n2: "map exerciseNumber fs = map Number ?vs"
    by (simp_all add: exerciseNumber_exact)
  have mx: "fold max ?vs ?v = Max (exerciseValue ` set (f # fs))"
    using Max.set_eq_fold [of ?v ?vs] by simp
  have fin: "finite (exerciseValue ` set (f # fs))" and ne: "exerciseValue ` set (f # fs) \<noteq> {}"
    by simp_all
  have "Max (exerciseValue ` set (f # fs)) < 9007199254740992"
    unfolding Max_less_iff [OF fin ne] using small by blast
  then have "Max (exerciseValue ` set (f # fs)) + 1 \<le> 9007199254740992"
    by linarith
  then have "addNumber (Number (Max (exerciseValue ` set (f # fs)))) (Number 1)
      = Number (Max (exerciseValue ` set (f # fs)) + 1)"
    by (rule addNumber_exact)
  moreover have "fold maxNumber (map exerciseNumber fs) (exerciseNumber f)
      = Number (Max (exerciseValue ` set (f # fs)))"
    unfolding n1 n2 fold_maxNumber_Number mx ..
  moreover from assms(1) Cons have "\<not> limit < length (map exerciseNumber (f # fs))"
    by simp
  ultimately show ?thesis
    using Cons by (simp add: nextNumber_def del: set_simps)
qed

text \<open>The definitions that evaluate the allocator on a given listing.\<close>

lemmas evalAlloc = nextNumber_def exerciseNumber_def exerciseValue_def match_exercise_def
  startsWith_def isDigit_def parseInt_def mathInt_def digitValue_def js_def Let_def
  toNumber_def shift.simps mathInt_numericValue [symmetric]

text \<open>
  Claim C1, as amended. Without a projects directory the next sequence number is 1.
  With one, let every entry that starts with \<open>exercise-\<close> carry a number below \<open>2^53\<close>,
  and let these entries be no more than one call takes as arguments. Then the next
  number is 1 when there is no such entry, and otherwise one more than the greatest
  number these entries carry. An entry of the form \<open>exercise-<digits>-...\<close> carries the
  numeric value of its digits; an entry that starts with \<open>exercise-\<close> and is not of that
  form carries 0.
\<close>

theorem nextNumber_spec:
  "nextNumber limit None = Inr (Number 1) \<and>
   (length (filter (\<lambda>dir. startsWith dir (js ''exercise-'')) entries) \<le> limit \<and>
    list_all (\<lambda>dir. exerciseValue dir < 9007199254740992)
      (filter (\<lambda>dir. startsWith dir (js ''exercise-'')) entries) \<longrightarrow>
    nextNumber limit (Some entries) =
      Inr (Number
        (if filter (\<lambda>dir. startsWith dir (js ''exercise-'')) entries = [] then 1
         else Max (exerciseValue ` set (filter (\<lambda>dir. startsWith dir (js ''exercise-'')) entries))
                + 1))) \<and>
   (ds \<noteq> [] \<and> list_all isDigit ds \<longrightarrow>
      exerciseValue (js ''exercise-'' @ ds @ js ''-'' @ rest) = numericValue ds) \<and>
   (startsWith d (js ''exercise-'') \<and>
    \<not> (\<exists>ds rest. ds \<noteq> [] \<and> list_all isDigit ds \<and> d = js ''exercise-'' @ ds @ js ''-'' @ rest) \<longrightarrow>
      exerciseValue d = 0)"
  using nextNumber_None nextNumber_exact exerciseValue_pattern exerciseValue_no_pattern
  by blast

text \<open>
  The theorem at a listing with three numbered exercises, a foreign entry and the bare
  prefix: the next number is 6.
\<close>

theorem nextNumber_spec_witness:
  "nextNumber 100000 (Some [js ''exercise-01-basics'', js ''exercise-03-data-binding'', js ''notes'',
                     js ''exercise-'', js ''exercise-05-services'']) = Inr (Number 6) \<and>
   exerciseValue (js ''exercise-03-data-binding'') = 3 \<and>
   exerciseValue (js ''exercise-'') = 0"
proof -
  let ?entries = "[js ''exercise-01-basics'', js ''exercise-03-data-binding'', js ''notes'',
                   js ''exercise-'', js ''exercise-05-services'']"
  let ?fs = "filter (\<lambda>dir. startsWith dir (js ''exercise-'')) ?entries"
  have fs: "?fs = [js ''exercise-01-basics'', js ''exercise-03-data-binding'',
                   js ''exercise-'', js ''exercise-05-services'']"
    by (simp add: startsWith_def js_def)
  have vals: "exerciseValue (js ''exercise-01-basics'') = 1"
    "exerciseValue (js ''exercise-05-services'') = 5"
    by (simp_all add: evalAlloc)
  have digits: "js ''03'' \<noteq> [] \<and> list_all isDigit (js ''03'')"
    by (simp add: isDigit_def js_def)
  have bare: "startsWith (js ''exercise-'') (js ''exercise-'') \<and>
    \<not> (\<exists>ds rest. ds \<noteq> [] \<and> list_all isDigit ds \<and>
           js ''exercise-'' = js ''exercise-'' @ ds @ js ''-'' @ rest)"
    by (simp add: startsWith_def js_def)
  have val: "numericValue (js ''03'') = 3"
    by (simp add: evalAlloc)
  note th = nextNumber_spec [of 100000 ?entries "js ''03''" "js ''data-binding''" "js ''exercise-''"]
  from th digits bare
  have three: "exerciseValue (js ''exercise-03-data-binding'') = numericValue (js ''03'')"
    and zero: "exerciseValue (js ''exercise-'') = 0"
    by (simp_all add: js_def)
  have len: "length ?fs \<le> 100000"
    unfolding fs by simp
  have small: "list_all (\<lambda>dir. exerciseValue dir < 9007199254740992) ?fs"
    unfolding fs using vals three zero val by simp
  from th len small
  have "nextNumber 100000 (Some ?entries) =
      Inr (Number (if ?fs = [] then 1 else Max (exerciseValue ` set ?fs) + 1))"
    by blast
  then have "nextNumber 100000 (Some ?entries) = Inr (Number 6)"
    unfolding fs using vals three zero val by simp
  with three zero val show ?thesis by simp
qed

text \<open>
  Claim C1 as first stated covers every listing. A directory numbered
  \<open>9007199254740993\<close>, which is \<open>2^53 + 1\<close>, carries a number that no double holds:
  \<open>parseInt\<close> reads \<open>2^53\<close>, adding 1 gives \<open>2^53\<close> again, and that is the next number,
  not one more than the number in the name.
\<close>

theorem nextNumber_rounds:
  "exerciseValue (js ''exercise-9007199254740993-x'') = 9007199254740993 \<and>
   nextNumber 100000 (Some [js ''exercise-9007199254740993-x''])
     = Inr (Number 9007199254740992)"
  by (simp add: evalAlloc split del: if_split)

text \<open>More entries than one call takes as arguments: the call of \<open>Math.max\<close> throws.\<close>

lemma nextNumber_rangeError:
  "limit < length (filter (\<lambda>dir. startsWith dir (js ''exercise-'')) entries) \<Longrightarrow>
     nextNumber limit (Some entries) = Inl rangeError"
  by (cases "filter (\<lambda>dir. startsWith dir (js ''exercise-'')) entries")
     (simp_all add: nextNumber_def)

subsection \<open>The padded sequence string and the port\<close>

lemma paddedNumber_exact:
  "n < 9007199254740992 \<Longrightarrow>
     paddedNumber (Number n) = replicate (2 - length (decimal n)) 48 @ decimal n"
  by (simp add: paddedNumber_def padStart_def String_of_exact)

lemma paddedNumber_digits:
  "n < 9007199254740992 \<Longrightarrow> list_all isDigit (paddedNumber (Number n))"
  using decimal_digits [of n] by (auto simp: paddedNumber_exact list_all_iff isDigit_def)

lemma mathInt_paddedNumber: "n < 9007199254740992 \<Longrightarrow> mathInt (paddedNumber (Number n)) = n"
  by (simp add: paddedNumber_exact mathInt_zeros mathInt_decimal)

lemma paddedNumber_nonempty: "n < 9007199254740992 \<Longrightarrow> paddedNumber (Number n) \<noteq> []"
  by (simp add: paddedNumber_exact decimal_nonempty)

lemma paddedNumber_small:
  "n < 10 \<Longrightarrow> paddedNumber (Number n) = [48, digitChar n]"
  by (simp add: paddedNumber_exact decimal.simps [of n])

text \<open>
  Claim C7, as amended. For a sequence number \<open>n\<close> below \<open>2^53\<close> the padded sequence
  string is the decimal rendering of \<open>n\<close> (digits only, of numeric value \<open>n\<close>, without a
  leading zero unless \<open>n\<close> is 0) with zeros put in front up to the width 2. Nothing is
  cut off: its length is the greater of 2 and the number of digits, and it still denotes
  \<open>n\<close>. 1 gives \<open>01\<close>, 10 gives \<open>10\<close>, 100 gives \<open>100\<close>.
\<close>

theorem paddedNumber_spec:
  "(n < 9007199254740992 \<longrightarrow>
      paddedNumber (Number n) = replicate (2 - length (decimal n)) 48 @ decimal n \<and>
      length (paddedNumber (Number n)) = max 2 (length (decimal n)) \<and>
      numericValue (paddedNumber (Number n)) = n) \<and>
   numericValue (decimal n) = n \<and> list_all isDigit (decimal n) \<and>
   (hd (decimal n) = 48) = (n = 0) \<and>
   paddedNumber (Number 1) = js ''01'' \<and> paddedNumber (Number 10) = js ''10'' \<and>
   paddedNumber (Number 100) = js ''100''"
proof -
  have "paddedNumber (Number 1) = js ''01''" "paddedNumber (Number 10) = js ''10''"
    "paddedNumber (Number 100) = js ''100''"
    by (simp_all add: paddedNumber_exact decimal.simps digitChar_def js_def)
  moreover have "n < 9007199254740992 \<longrightarrow>
      length (paddedNumber (Number n)) = max 2 (length (decimal n))"
    by (simp add: paddedNumber_exact max_def)
  ultimately show ?thesis
    using mathInt_decimal [of n] mathInt_paddedNumber [of n] decimal_digits [of n]
      decimal_no_leading_zero [of n] paddedNumber_exact [of n]
    by (simp add: mathInt_numericValue)
qed

text \<open>The theorem at sequence number 7.\<close>

theorem paddedNumber_spec_witness:
  "(7::nat) < 9007199254740992 \<and> paddedNumber (Number 7) = js ''07'' \<and>
   length (paddedNumber (Number 7)) = 2 \<and> numericValue (paddedNumber (Number 7)) = 7"
proof -
  have d: "decimal 7 = [55]"
    by (simp add: decimal.simps digitChar_def js_def)
  have b: "(7::nat) < 9007199254740992"
    by simp
  from paddedNumber_spec [of 7] b
  have p: "paddedNumber (Number 7) = replicate (2 - length (decimal 7)) 48 @ decimal 7"
    and l: "length (paddedNumber (Number 7)) = max 2 (length (decimal 7))"
    and v: "numericValue (paddedNumber (Number 7)) = 7"
    by blast+
  from p have "paddedNumber (Number 7) = js ''07''"
    by (simp add: d js_def)
  moreover from l have "length (paddedNumber (Number 7)) = 2"
    by (simp add: d)
  ultimately show ?thesis
    using b v by blast
qed

text \<open>A double that is a multiple of \<open>10^p\<close> is its own candidate at \<open>p\<close>.\<close>

lemma pick_self:
  assumes "toNumber v = Number v" and "v = k * 10 ^ p"
  shows "pick v p = Some v"
proof -
  have "(v div 10 ^ p) * 10 ^ p = v"
    using assms(2) by simp
  then show ?thesis
    using assms(1) by (simp add: pick_def Let_def)
qed

text \<open>
  Claim C7 as first stated covers every sequence number. A directory numbered
  \<open>999999999999999999999\<close> is read as the double \<open>10^21\<close>, the next number is \<open>10^21\<close>
  again, and its padded string is \<open>1e+21\<close>, not its decimal digits.
\<close>

theorem paddedNumber_exponent:
  "nextNumber 100000 (Some [js ''exercise-999999999999999999999-x''])
     = Inr (Number 1000000000000000000000) \<and>
   paddedNumber (Number 1000000000000000000000) = js ''1e+21''"
proof -
  let ?v = "1000000000000000000000 :: nat"
  have v: "toNumber ?v = Number ?v"
    by (simp add: toNumber_def shift.simps Let_def split del: if_split)
  have p: "pick ?v p = Some ?v" if "p \<le> 21" for p
  proof -
    from that have "?v = 10 ^ (21 - p) * 10 ^ p"
      by (simp flip: power_add)
    then show ?thesis by (rule pick_self [OF v])
  qed
  have last: "pick ?v 22 = None"
    by (simp add: pick_def toNumber_def shift.simps Let_def split del: if_split)
  have step: "shortest ?v p ?v = shortest ?v (Suc p) ?v" if "p \<le> 21" for p
  proof -
    from that have "(10::nat) ^ p \<le> 10 ^ 21"
      by (intro power_increasing) simp_all
    then have "\<not> 10 * ?v < 10 ^ p" by simp
    then show ?thesis
      by (simp add: shortest.simps [of ?v p ?v] p [OF that])
  qed
  have "shortest ?v 1 ?v = shortest ?v 22 ?v"
  proof (rule inc_induct [of 1 22])
    show "(1::nat) \<le> 22" by simp
    show "shortest ?v 22 ?v = shortest ?v 22 ?v" ..
  next
    fix n :: nat
    assume "n < 22" and ih: "shortest ?v (Suc n) ?v = shortest ?v 22 ?v"
    then have "n \<le> 21" by linarith
    from step [OF this] ih show "shortest ?v n ?v = shortest ?v 22 ?v"
      by (rule trans)
  qed
  also have "\<dots> = ?v"
    by (simp add: shortest.simps [of ?v 22 ?v] last)
  finally have s: "shortest ?v 1 ?v = ?v" .
  have "String_of (Number ?v) = js ''1e+21''"
    using s by (simp add: String_of_def exponential_def stripZeros_def decimal.simps
        digitChar_def js_def Let_def split del: if_split)
  then have "paddedNumber (Number ?v) = js ''1e+21''"
    by (simp add: paddedNumber_def padStart_def js_def)
  moreover have "nextNumber 100000 (Some [js ''exercise-999999999999999999999-x''])
     = Inr (Number ?v)"
    by (simp add: evalAlloc split del: if_split)
  ultimately show ?thesis by simp
qed

text \<open>
  Claim C8, as amended. As long as \<open>4200 + n\<close> does not exceed \<open>2^53\<close>, the port of
  sequence number \<open>n\<close> is \<open>4200 + n\<close>; no other bound is applied, so sequence 100 has port
  4300. Sequence 6 has port 4206, and that is the port of the exercise allocated after
  exercises 01 to 05.
\<close>

theorem port_spec:
  "(4200 + n \<le> 9007199254740992 \<longrightarrow> port (Number n) = Number (4200 + n)) \<and>
   port (Number 6) = Number 4206 \<and> port (Number 100) = Number 4300 \<and>
   nextNumber 100000 (Some [js ''exercise-01-basics'', js ''exercise-02-components'',
     js ''exercise-03-data-binding'', js ''exercise-04-directives'', js ''exercise-05-services''])
     = Inr (Number 6)"
proof -
  have "nextNumber 100000 (Some [js ''exercise-01-basics'', js ''exercise-02-components'',
     js ''exercise-03-data-binding'', js ''exercise-04-directives'', js ''exercise-05-services''])
     = Inr (Number 6)"
    by (simp add: evalAlloc split del: if_split)
  moreover have "4200 + n \<le> 9007199254740992 \<longrightarrow> port (Number n) = Number (4200 + n)"
    by (simp add: port_def toNumber_exact)
  moreover have "port (Number 6) = Number 4206" "port (Number 100) = Number 4300"
    by (simp_all add: port_def toNumber_exact)
  ultimately show ?thesis by blast
qed

text \<open>The theorem at sequence number 42.\<close>

theorem port_spec_witness:
  "(4200::nat) + 42 \<le> 9007199254740992 \<and> port (Number 42) = Number 4242"
  using port_spec [of 42] by simp

text \<open>
  Claim C8 as first stated covers every sequence number. After a directory numbered
  \<open>9007199254736792\<close> the next number is \<open>9007199254736793\<close>, and \<open>4200\<close> more is
  \<open>2^53 + 1\<close>, which no double holds: the port is \<open>2^53\<close>.
\<close>

theorem port_rounds:
  "nextNumber 100000 (Some [js ''exercise-9007199254736792-x''])
     = Inr (Number 9007199254736793) \<and>
   port (Number 9007199254736793) = Number 9007199254740992 \<and>
   (4200::nat) + 9007199254736793 = 9007199254740993"
  by (simp add: evalAlloc port_def split del: if_split)

subsection \<open>Successive allocations\<close>

lemma exerciseNumber_fullExerciseName:
  assumes "n < 9007199254740992"
  shows "exerciseNumber (fullExerciseName (paddedNumber (Number n)) topic) = Number n"
proof -
  from assms have "toNumber n = Number n"
    by (simp add: toNumber_exact)
  then show ?thesis
    using match_exercise_pattern [OF paddedNumber_nonempty [OF assms] paddedNumber_digits [OF assms],
        of topic]
    by (simp add: exerciseNumber_def fullExerciseName_def parseInt_def
        mathInt_paddedNumber [OF assms])
qed

lemma startsWith_fullExerciseName: "startsWith (fullExerciseName p topic) (js ''exercise-'')"
  by (simp add: fullExerciseName_def startsWith_def)

lemma fold_maxNumber_ge:
  assumes "Number n \<in> set (p # ps)"
  shows "fold maxNumber ps p = Infinity \<or> (\<exists>m. fold maxNumber ps p = Number m \<and> n \<le> m)"
proof (cases "Infinity \<in> set (p # ps)")
  case True
  then show ?thesis
    by (auto simp: fold_maxNumber_has_Infinity fold_maxNumber_Infinity)
next
  case False
  from no_Infinity_map [OF this] obtain ys where ys: "p # ps = map Number ys" ..
  then obtain a ys' where y: "ys = a # ys'"
    by (cases ys) auto
  from assms ys have "n \<in> set ys" by auto
  then have "n \<le> Max (set (a # ys'))"
    unfolding y by (intro Max_ge) simp_all
  then have "n \<le> fold max ys' a"
    by (simp only: Max.set_eq_fold)
  with ys y show ?thesis
    by (simp add: fold_maxNumber_Number)
qed

lemma nextNumber_greater:
  assumes "d \<in> set entries" and "startsWith d (js ''exercise-'')"
    and "exerciseNumber d = Number n" and "n < 9007199254740992"
    and "nextNumber limit (Some entries) = Inr n'"
  shows "lessNumber (Number n) n'"
proof -
  let ?fs = "filter (\<lambda>dir. startsWith dir (js ''exercise-'')) entries"
  from assms(1,2) have "d \<in> set ?fs" by simp
  then have mem: "Number n \<in> set (map exerciseNumber ?fs)"
    using assms(3) by (metis image_eqI set_map)
  then obtain p ps where ps: "map exerciseNumber ?fs = p # ps"
    by (cases "map exerciseNumber ?fs") auto
  with assms(5) have n': "n' = addNumber (fold maxNumber ps p) (Number 1)"
    by (auto simp: nextNumber_def split: if_splits)
  from mem ps have "Number n \<in> set (p # ps)" by simp
  from fold_maxNumber_ge [OF this] show ?thesis
  proof
    assume "fold maxNumber ps p = Infinity"
    then show ?thesis by (simp add: n')
  next
    assume "\<exists>m. fold maxNumber ps p = Number m \<and> n \<le> m"
    then obtain m where "fold maxNumber ps p = Number m" and "n \<le> m" by blast
    with addNumber_one_greater [OF assms(4) this(2)] show ?thesis
      by (simp only: n')
  qed
qed

lemma nextNumber_distinct_set:
  assumes "distinct entries1" and "distinct entries2" and "set entries1 = set entries2"
  shows "nextNumber limit (Some entries1) = nextNumber limit (Some entries2)"
proof -
  let ?f1 = "filter (\<lambda>dir. startsWith dir (js ''exercise-'')) entries1"
  let ?f2 = "filter (\<lambda>dir. startsWith dir (js ''exercise-'')) entries2"
  from assms(3) have sets: "set ?f1 = set ?f2" by simp
  moreover from assms(1,2) have "distinct ?f1" "distinct ?f2" by simp_all
  ultimately have len: "length ?f1 = length ?f2"
    by (metis distinct_card)
  show ?thesis
  proof (cases "map exerciseNumber ?f1")
    case Nil
    with len have "map exerciseNumber ?f2 = []" by simp
    with Nil show ?thesis by (simp add: nextNumber_def)
  next
    case (Cons p ps)
    with len obtain q qs where q: "map exerciseNumber ?f2 = q # qs"
      by (cases "map exerciseNumber ?f2") auto
    from sets have "set (map exerciseNumber ?f1) = set (map exerciseNumber ?f2)"
      by (simp only: set_map)
    with Cons q have "set (p # ps) = set (q # qs)" by simp
    then have "fold maxNumber ps p = fold maxNumber qs q"
      by (rule fold_maxNumber_set)
    moreover from len Cons q have "length (p # ps) = length (q # qs)"
      by (metis length_map)
    ultimately show ?thesis
      using Cons q by (simp add: nextNumber_def)
  qed
qed

text \<open>
  Claim C3, as amended. When an invocation with topic \<open>topic\<close> has allocated a number
  \<open>n\<close> below \<open>2^53\<close> and the directory named after it is among the entries the next
  invocation sees, the number the next invocation allocates is strictly larger. The
  allocation is a function of the snapshot: two listings of the same directory, whatever
  the order of the names, give the same result.
\<close>

theorem nextNumber_monotone:
  "(nextNumber limit listing = Inr (Number n) \<and> n < 9007199254740992 \<and>
    fullExerciseName (paddedNumber (Number n)) topic \<in> set entries' \<and>
    nextNumber limit' (Some entries') = Inr n' \<longrightarrow>
      lessNumber (Number n) n') \<and>
   (distinct entries1 \<and> distinct entries2 \<and> set entries1 = set entries2 \<longrightarrow>
      nextNumber limit (Some entries1) = nextNumber limit (Some entries2))"
proof (intro conjI impI)
  assume a: "nextNumber limit listing = Inr (Number n) \<and> n < 9007199254740992 \<and>
    fullExerciseName (paddedNumber (Number n)) topic \<in> set entries' \<and>
    nextNumber limit' (Some entries') = Inr n'"
  then have n: "n < 9007199254740992" by blast
  from a nextNumber_greater [OF _ startsWith_fullExerciseName
      exerciseNumber_fullExerciseName [OF n] n]
  show "lessNumber (Number n) n'" by blast
next
  assume "distinct entries1 \<and> distinct entries2 \<and> set entries1 = set entries2"
  then show "nextNumber limit (Some entries1) = nextNumber limit (Some entries2)"
    using nextNumber_distinct_set by blast
qed

text \<open>
  The theorem after exercise 05: the invocation for \<open>routing\<close> allocates 6, and once
  \<open>exercise-06-routing\<close> is listed the next number is 7.
\<close>

theorem nextNumber_monotone_witness:
  "nextNumber 100000 (Some [js ''exercise-05-services'']) = Inr (Number 6) \<and>
   (6::nat) < 9007199254740992 \<and>
   fullExerciseName (paddedNumber (Number 6)) (js ''routing'')
     \<in> set [js ''exercise-05-services'', js ''exercise-06-routing''] \<and>
   nextNumber 100000 (Some [js ''exercise-05-services'', js ''exercise-06-routing''])
     = Inr (Number 7) \<and>
   lessNumber (Number 6) (Number 7) \<and>
   distinct [js ''b'', js ''exercise-02-x''] \<and> distinct [js ''exercise-02-x'', js ''b''] \<and>
   set [js ''b'', js ''exercise-02-x''] = set [js ''exercise-02-x'', js ''b''] \<and>
   nextNumber 100000 (Some [js ''b'', js ''exercise-02-x''])
     = nextNumber 100000 (Some [js ''exercise-02-x'', js ''b''])"
proof -
  have n5: "nextNumber 100000 (Some [js ''exercise-05-services'']) = Inr (Number 6)"
    by (simp add: evalAlloc split del: if_split)
  have n6: "nextNumber 100000 (Some [js ''exercise-05-services'', js ''exercise-06-routing''])
     = Inr (Number 7)"
    by (simp add: evalAlloc split del: if_split)
  have b: "(6::nat) < 9007199254740992" by simp
  have mem: "fullExerciseName (paddedNumber (Number 6)) (js ''routing'')
     \<in> set [js ''exercise-05-services'', js ''exercise-06-routing'']"
    by (simp add: fullExerciseName_def paddedNumber_small digitChar_def js_def)
  have d: "distinct [js ''b'', js ''exercise-02-x''] \<and> distinct [js ''exercise-02-x'', js ''b'']"
    by (simp add: js_def)
  have sets: "set [js ''b'', js ''exercise-02-x''] = set [js ''exercise-02-x'', js ''b'']"
    by auto
  note th = nextNumber_monotone [of 100000 "Some [js ''exercise-05-services'']" 6 "js ''routing''"
      "[js ''exercise-05-services'', js ''exercise-06-routing'']" 100000 "Number 7"
      "[js ''b'', js ''exercise-02-x'']" "[js ''exercise-02-x'', js ''b'']"]
  from th n5 b mem n6 have "lessNumber (Number 6) (Number 7)" by blast
  moreover from th d sets
  have "nextNumber 100000 (Some [js ''b'', js ''exercise-02-x''])
     = nextNumber 100000 (Some [js ''exercise-02-x'', js ''b''])" by blast
  ultimately show ?thesis
    using n5 b mem n6 d sets by blast
qed

text \<open>
  Claim C3 as first stated covers every allocation. After a directory numbered \<open>2^53\<close>
  the number allocated is \<open>2^53\<close>, since \<open>2^53 + 1\<close> is no double; with the new
  directory listed, the next invocation allocates \<open>2^53\<close> again.
\<close>

theorem nextNumber_repeats:
  "nextNumber 100000 (Some [js ''exercise-9007199254740992-x''])
     = Inr (Number 9007199254740992) \<and>
   fullExerciseName (paddedNumber (Number 9007199254740992)) (js ''routing'')
     = js ''exercise-9007199254740992-routing'' \<and>
   nextNumber 100000 (Some [js ''exercise-9007199254740992-x'',
                            js ''exercise-9007199254740992-routing''])
     = Inr (Number 9007199254740992) \<and>
   \<not> lessNumber (Number 9007199254740992) (Number 9007199254740992)"
proof -
  have "String_of (Number 9007199254740992) = js ''9007199254740992''"
    by (simp add: String_of_def shortest.simps pick_def toNumber_def shift.simps Let_def
        decimal.simps digitChar_def js_def split del: if_split)
  then have "fullExerciseName (paddedNumber (Number 9007199254740992)) (js ''routing'')
     = js ''exercise-9007199254740992-routing''"
    by (simp add: fullExerciseName_def paddedNumber_def padStart_def js_def)
  moreover have "nextNumber 100000 (Some [js ''exercise-9007199254740992-x''])
     = Inr (Number 9007199254740992)"
    by (simp add: evalAlloc split del: if_split)
  moreover have "nextNumber 100000 (Some [js ''exercise-9007199254740992-x'',
                            js ''exercise-9007199254740992-routing''])
     = Inr (Number 9007199254740992)"
    by (simp add: evalAlloc split del: if_split)
  ultimately show ?thesis by simp
qed

subsection \<open>The \<open>scripts\<close> object and the manifest update\<close>

lemma isArrayIndex_hd: "isArrayIndex (c # cs) \<Longrightarrow> isDigit c"
  by (simp add: isArrayIndex_def)

lemma not_isArrayIndex_start: "\<not> isArrayIndex (js ''start:'' @ s)"
  by (auto dest!: isArrayIndex_hd simp: isDigit_def js_def)

lemma not_isArrayIndex_build: "\<not> isArrayIndex (js ''build:'' @ s)"
  by (auto dest!: isArrayIndex_hd simp: isDigit_def js_def)

lemma map_of_overwrite:
  "map_of (map (\<lambda>(k', v'). if k' = key then (k', v) else (k', v')) obj) k =
     (if k = key then (case map_of obj k of None \<Rightarrow> None | Some w \<Rightarrow> Some v) else map_of obj k)"
  by (induction obj) auto

lemma Object_keys_setProperty_plain:
  assumes "\<not> isArrayIndex key" and "key \<noteq> js ''__proto__''"
  shows "Object_keys (setProperty obj key v) =
     (if key \<in> set (Object_keys obj) then Object_keys obj else Object_keys obj @ [key])"
  using assms by (auto simp: setProperty_def Object_keys_def)

lemma getOwn_setProperty_plain:
  assumes "\<not> isArrayIndex key" and "key \<noteq> js ''__proto__''"
  shows "getOwn (setProperty obj key v) k = (if k = key then Some v else getOwn obj k)"
proof (cases "key \<in> set (Object_keys obj)")
  case True
  then obtain w where "map_of obj key = Some w"
    by (auto simp: Object_keys_def dest: weak_map_of_SomeI)
  with True show ?thesis
    by (simp add: setProperty_def getOwn_def map_of_overwrite)
next
  case False
  then have "map_of obj key = None"
    by (simp add: Object_keys_def map_of_eq_None_iff)
  with False assms show ?thesis
    by (auto simp: setProperty_def getOwn_def map_add_def split: option.splits)
qed

text \<open>Rebuilding from keys that are neither array indices nor \<open>__proto__\<close>.\<close>

lemma rebuild_plain:
  assumes "distinct ks"
    and "\<forall>k\<in>set ks. \<not> isArrayIndex k \<and> k \<noteq> js ''__proto__'' \<and> getOwn obj k \<noteq> None"
    and "set ks \<inter> set (Object_keys acc) = {}"
  shows "fold (\<lambda>key sortedScripts.
            case getOwn obj key of
              Some v \<Rightarrow> setProperty sortedScripts key v
            | None \<Rightarrow> sortedScripts) ks acc
         = acc @ map (\<lambda>k. (k, the (getOwn obj k))) ks"
  using assms
proof (induction ks arbitrary: acc)
  case Nil
  show ?case by simp
next
  case (Cons k ks)
  from Cons.prems obtain v where v: "getOwn obj k = Some v"
    by auto
  from Cons.prems have fresh: "k \<notin> set (Object_keys acc)" and plain: "\<not> isArrayIndex k" "k \<noteq> js ''__proto__''"
    by auto
  then have step: "setProperty acc k v = acc @ [(k, v)]"
    by (simp add: setProperty_def)
  have "set ks \<inter> set (Object_keys (acc @ [(k, v)])) = {}"
    using Cons.prems by (auto simp: Object_keys_def)
  with Cons.IH [of "acc @ [(k, v)]"] Cons.prems show ?case
    by (simp add: v step)
qed

lemma sortScripts_plain:
  assumes "distinct (Object_keys obj)"
    and "list_all (\<lambda>k. \<not> isArrayIndex k \<and> k \<noteq> js ''__proto__'') (Object_keys obj)"
  shows "sortScripts obj =
     map (\<lambda>k. (k, the (getOwn obj k))) (sort (Object_keys obj))"
proof -
  have "\<forall>k\<in>set (sort (Object_keys obj)).
      \<not> isArrayIndex k \<and> k \<noteq> js ''__proto__'' \<and> getOwn obj k \<noteq> None"
    using assms(2) by (auto simp: list_all_iff getOwn_def Object_keys_def map_of_eq_None_iff)
  moreover have "distinct (sort (Object_keys obj))"
    using assms(1) by simp
  ultimately show ?thesis
    unfolding sortScripts_def
    by (subst rebuild_plain) (simp_all add: Object_keys_def)
qed

lemma Object_keys_sortScripts_plain:
  assumes "distinct (Object_keys obj)"
    and "list_all (\<lambda>k. \<not> isArrayIndex k \<and> k \<noteq> js ''__proto__'') (Object_keys obj)"
  shows "Object_keys (sortScripts obj) = sort (Object_keys obj)"
  by (simp add: sortScripts_plain [OF assms] Object_keys_def comp_def)

lemma getOwn_sortScripts_plain:
  assumes "distinct (Object_keys obj)"
    and "list_all (\<lambda>k. \<not> isArrayIndex k \<and> k \<noteq> js ''__proto__'') (Object_keys obj)"
  shows "getOwn (sortScripts obj) k = getOwn obj k"
proof (cases "k \<in> set (Object_keys obj)")
  case True
  then obtain v where "getOwn obj k = Some v"
    by (auto simp: getOwn_def Object_keys_def) (metis map_of_eq_None_iff not_None_eq image_eqI fst_conv)
  with True show ?thesis
    by (simp add: sortScripts_plain [OF assms] getOwn_def [of "map _ _"] map_of_map_restrict)
next
  case False
  then have "getOwn obj k = None"
    by (simp add: getOwn_def Object_keys_def map_of_eq_None_iff)
  with False show ?thesis
    by (simp add: sortScripts_plain [OF assms] getOwn_def [of "map _ _"] map_of_map_restrict)
qed

text \<open>
  Claim C2, as amended. Let the \<open>scripts\<close> object have no key that is an array index and
  no key \<open>__proto__\<close>. After the update for the short name \<open>ex<NN>\<close>, its keys are the old
  keys together with \<open>start:ex<NN>\<close> and \<open>build:ex<NN>\<close>, they stand in ascending
  lexicographic order without repetition, \<open>start:ex<NN>\<close> holds the serve command and
  \<open>build:ex<NN>\<close> the build command (whatever they held before), and every other key
  holds what it held before.
\<close>

theorem updateScripts_spec:
  assumes "distinct (Object_keys obj)"
    and "list_all (\<lambda>k. \<not> isArrayIndex k \<and> k \<noteq> js ''__proto__'') (Object_keys obj)"
  shows "set (Object_keys (updateScripts padded full p obj)) =
       set (Object_keys obj) \<union> {js ''start:'' @ shortName padded, js ''build:'' @ shortName padded} \<and>
     sorted (Object_keys (updateScripts padded full p obj)) \<and>
     distinct (Object_keys (updateScripts padded full p obj)) \<and>
     getOwn (updateScripts padded full p obj) k =
       (if k = js ''start:'' @ shortName padded then Some (startCommand full p)
        else if k = js ''build:'' @ shortName padded then Some (buildCommand full)
        else getOwn obj k)"
proof -
  let ?s = "js ''start:'' @ shortName padded" and ?b = "js ''build:'' @ shortName padded"
  let ?o1 = "setProperty obj ?s (startCommand full p)"
  let ?o2 = "setProperty ?o1 ?b (buildCommand full)"
  have ps: "\<not> isArrayIndex ?s" "?s \<noteq> js ''__proto__''" and pb: "\<not> isArrayIndex ?b" "?b \<noteq> js ''__proto__''"
    using not_isArrayIndex_start [of "shortName padded"] not_isArrayIndex_build [of "shortName padded"]
    by (simp_all add: js_def)
  have k1: "Object_keys ?o1 =
      (if ?s \<in> set (Object_keys obj) then Object_keys obj else Object_keys obj @ [?s])"
    by (rule Object_keys_setProperty_plain [OF ps])
  have k2: "Object_keys ?o2 =
      (if ?b \<in> set (Object_keys ?o1) then Object_keys ?o1 else Object_keys ?o1 @ [?b])"
    by (rule Object_keys_setProperty_plain [OF pb])
  have set2: "set (Object_keys ?o2) = set (Object_keys obj) \<union> {?s, ?b}"
    unfolding k2 k1 by auto
  have dist2: "distinct (Object_keys ?o2)"
    unfolding k2 k1 using assms(1) by auto
  have plain2: "list_all (\<lambda>k. \<not> isArrayIndex k \<and> k \<noteq> js ''__proto__'') (Object_keys ?o2)"
    unfolding list_all_iff set2 using assms(2) ps pb by (auto simp: list_all_iff)
  have upd: "updateScripts padded full p obj = sortScripts ?o2"
    by (simp add: updateScripts_def Let_def)
  have keys: "Object_keys (updateScripts padded full p obj) = sort (Object_keys ?o2)"
    unfolding upd by (rule Object_keys_sortScripts_plain [OF dist2 plain2])
  have vals: "getOwn (updateScripts padded full p obj) k = getOwn ?o2 k"
    unfolding upd by (rule getOwn_sortScripts_plain [OF dist2 plain2])
  have g2: "getOwn ?o2 k = (if k = ?b then Some (buildCommand full) else getOwn ?o1 k)"
    by (rule getOwn_setProperty_plain [OF pb])
  have g1: "getOwn ?o1 k = (if k = ?s then Some (startCommand full p) else getOwn obj k)"
    by (rule getOwn_setProperty_plain [OF ps])
  have "getOwn ?o2 k =
       (if k = ?s then Some (startCommand full p)
        else if k = ?b then Some (buildCommand full)
        else getOwn obj k)"
    unfolding g2 g1 by (auto simp: js_def)
  with vals keys set2 dist2 show ?thesis
    by simp
qed

text \<open>
  The theorem at the scripts \<open>start:ex01\<close> and \<open>zzz\<close>, for exercise 06: the keys come out
  as \<open>build:ex06\<close>, \<open>start:ex01\<close>, \<open>start:ex06\<close>, \<open>zzz\<close>.
\<close>

theorem updateScripts_spec_witness:
  "distinct (Object_keys [(js ''start:ex01'', js ''ng serve exercise-01-basics --port 4201''),
                          (js ''zzz'', js ''echo z'')]) \<and>
   list_all (\<lambda>k. \<not> isArrayIndex k \<and> k \<noteq> js ''__proto__'')
     (Object_keys [(js ''start:ex01'', js ''ng serve exercise-01-basics --port 4201''),
                   (js ''zzz'', js ''echo z'')]) \<and>
   Object_keys (updateScripts (js ''06'') (js ''exercise-06-routing'') (Number 4206)
     [(js ''start:ex01'', js ''ng serve exercise-01-basics --port 4201''), (js ''zzz'', js ''echo z'')])
     = [js ''build:ex06'', js ''start:ex01'', js ''start:ex06'', js ''zzz''] \<and>
   sorted (Object_keys (updateScripts (js ''06'') (js ''exercise-06-routing'') (Number 4206)
     [(js ''start:ex01'', js ''ng serve exercise-01-basics --port 4201''), (js ''zzz'', js ''echo z'')])) \<and>
   getOwn (updateScripts (js ''06'') (js ''exercise-06-routing'') (Number 4206)
     [(js ''start:ex01'', js ''ng serve exercise-01-basics --port 4201''), (js ''zzz'', js ''echo z'')])
     (js ''start:ex01'') = Some (js ''ng serve exercise-01-basics --port 4201'')"
proof -
  let ?obj = "[(js ''start:ex01'', js ''ng serve exercise-01-basics --port 4201''),
               (js ''zzz'', js ''echo z'')]"
  have d: "distinct (Object_keys ?obj)"
    by (simp add: Object_keys_def js_def)
  have pl: "list_all (\<lambda>k. \<not> isArrayIndex k \<and> k \<noteq> js ''__proto__'') (Object_keys ?obj)"
    by (simp add: Object_keys_def isArrayIndex_def isDigit_def js_def)
  note th = updateScripts_spec [OF d pl, of "js ''06''" "js ''exercise-06-routing''" "Number 4206" "js ''start:ex01''"]
  have keys: "Object_keys (updateScripts (js ''06'') (js ''exercise-06-routing'') (Number 4206) ?obj)
     = [js ''build:ex06'', js ''start:ex01'', js ''start:ex06'', js ''zzz'']"
    by (simp add: updateScripts_def sortScripts_def setProperty_def Object_keys_def getOwn_def
        isArrayIndex_def isDigit_def js_def shortName_def)
  from th have "sorted (Object_keys (updateScripts (js ''06'') (js ''exercise-06-routing'') (Number 4206) ?obj))"
    and "getOwn (updateScripts (js ''06'') (js ''exercise-06-routing'') (Number 4206) ?obj) (js ''start:ex01'')
      = Some (js ''ng serve exercise-01-basics --port 4201'')"
    by (simp_all add: shortName_def getOwn_def js_def)
  with d pl keys show ?thesis by blast
qed

text \<open>
  Claim C2 as first stated lets every key that was there before keep its value. A
  manifest that already has \<open>start:ex06\<close> when exercise 06 is allocated (its directory is
  gone, say) shows otherwise: the assignment of line 93 overwrites the entry.
\<close>

theorem updateScripts_overwrites:
  "getOwn [(js ''start:ex06'', js ''ng serve exercise-06-forms --port 4299'')] (js ''start:ex06'')
     = Some (js ''ng serve exercise-06-forms --port 4299'') \<and>
   getOwn (updateScripts (paddedNumber (Number 6)) (fullExerciseName (paddedNumber (Number 6)) (js ''routing'')) (port (Number 6))
       [(js ''start:ex06'', js ''ng serve exercise-06-forms --port 4299'')]) (js ''start:ex06'')
     = Some (js ''ng serve exercise-06-routing --port 4206'') \<and>
   getOwn (updateScripts (paddedNumber (Number 6)) (fullExerciseName (paddedNumber (Number 6)) (js ''routing'')) (port (Number 6))
       [(js ''start:ex06'', js ''ng serve exercise-06-forms --port 4299'')]) (js ''start:ex06'')
     \<noteq> getOwn [(js ''start:ex06'', js ''ng serve exercise-06-forms --port 4299'')] (js ''start:ex06'')"
proof -
  have "paddedNumber (Number 6) = js ''06''"
    by (simp add: paddedNumber_small digitChar_def js_def)
  then show ?thesis
    by (simp add: updateScripts_def sortScripts_def setProperty_def Object_keys_def getOwn_def
        isArrayIndex_def isDigit_def js_def shortName_def startCommand_def buildCommand_def
        fullExerciseName_def port_def toNumber_exact String_of_exact decimal.simps digitChar_def)
qed

text \<open>
  Outside the amended claim: keys that are array indices keep their numeric order in
  front of the others, whatever order the sort has put them in.
\<close>

lemma updateScripts_array_indices:
  "wellFormed [(js ''9'', js ''echo nine''), (js ''10'', js ''echo ten'')] \<and>
   Object_keys (updateScripts (js ''06'') (js ''exercise-06-routing'') (Number 4206)
     [(js ''9'', js ''echo nine''), (js ''10'', js ''echo ten'')])
     = [js ''9'', js ''10'', js ''build:ex06'', js ''start:ex06''] \<and>
   \<not> sorted (Object_keys (updateScripts (js ''06'') (js ''exercise-06-routing'') (Number 4206)
     [(js ''9'', js ''echo nine''), (js ''10'', js ''echo ten'')]))"
proof -
  have keys: "Object_keys (updateScripts (js ''06'') (js ''exercise-06-routing'') (Number 4206)
     [(js ''9'', js ''echo nine''), (js ''10'', js ''echo ten'')])
     = [js ''9'', js ''10'', js ''build:ex06'', js ''start:ex06'']"
    by (simp add: updateScripts_def sortScripts_def setProperty_def Object_keys_def getOwn_def
        isArrayIndex_def isDigit_def js_def shortName_def decimal.simps mathInt_def digitValue_def
        digitChar_def)
  have "wellFormed [(js ''9'', js ''echo nine''), (js ''10'', js ''echo ten'')]"
    by (simp add: wellFormed_def Object_keys_def isArrayIndex_def isDigit_def js_def decimal.simps
        mathInt_def digitValue_def digitChar_def)
  with keys show ?thesis by (simp add: js_def)
qed

subsection \<open>Sorting a sorted object again\<close>

lemma insertIndex_append:
  "\<forall>(k', v') \<in> set pre. isArrayIndex k' \<and> mathInt k' < mathInt k \<Longrightarrow>
     insertIndex k v pre = pre @ [(k, v)]"
  by (induction pre) auto

lemma indicesFirst_before_index:
  "indicesFirst (xs @ k # ys) \<Longrightarrow> isArrayIndex k \<Longrightarrow>
     \<forall>x\<in>set xs. isArrayIndex x \<and> mathInt x < mathInt k"
proof (induction xs)
  case Nil
  show ?case by simp
next
  case (Cons x xs)
  show ?case
  proof (cases xs)
    case Nil
    with Cons.prems show ?thesis by simp
  next
    case (Cons x' xs')
    with Cons.prems Cons.IH show ?thesis by (auto split: if_splits)
  qed
qed

lemma rebuild_suffix:
  assumes "distinct (map fst (pre @ suf))" and "indicesFirst (map fst (pre @ suf))"
    and "js ''__proto__'' \<notin> fst ` set suf"
    and "\<forall>(k, v) \<in> set suf. getOwn obj k = Some v"
  shows "fold (\<lambda>key sortedScripts.
            case getOwn obj key of
              Some v \<Rightarrow> setProperty sortedScripts key v
            | None \<Rightarrow> sortedScripts) (map fst suf) pre
         = pre @ suf"
  using assms
proof (induction suf arbitrary: pre)
  case Nil
  show ?case by simp
next
  case (Cons kv suf)
  obtain k v where kv: "kv = (k, v)" by (cases kv)
  from Cons.prems kv have v: "getOwn obj k = Some v" and fresh: "k \<notin> fst ` set pre"
    and np: "k \<noteq> js ''__proto__''"
    by auto
  have step: "setProperty pre k v = pre @ [(k, v)]"
  proof (cases "isArrayIndex k")
    case True
    from Cons.prems(2) have "indicesFirst (map fst pre @ k # map fst suf)"
      by (simp add: kv)
    from indicesFirst_before_index [OF this True]
    have "\<forall>(k', v') \<in> set pre. isArrayIndex k' \<and> mathInt k' < mathInt k"
      by auto
    from insertIndex_append [OF this] True fresh np show ?thesis
      by (simp add: setProperty_def Object_keys_def)
  next
    case False
    with fresh np show ?thesis
      by (simp add: setProperty_def Object_keys_def)
  qed
  from Cons.prems kv have "distinct (map fst ((pre @ [(k, v)]) @ suf))"
    and "indicesFirst (map fst ((pre @ [(k, v)]) @ suf))"
    and "js ''__proto__'' \<notin> fst ` set suf"
    and "\<forall>(k, v) \<in> set suf. getOwn obj k = Some v"
    by simp_all
  from Cons.IH [OF this] show ?case
    by (simp add: kv v step)
qed

text \<open>
  An object as \<open>JSON.parse\<close> returns it, with ascending keys and without a key
  \<open>__proto__\<close>, comes out of the sort step as it went in.
\<close>

lemma sortScripts_sorted:
  assumes "wellFormed obj" and "sorted (Object_keys obj)"
    and "js ''__proto__'' \<notin> set (Object_keys obj)"
  shows "sortScripts obj = obj"
proof -
  from assms(1) have d: "distinct (map fst ([] @ obj))" and i: "indicesFirst (map fst ([] @ obj))"
    by (simp_all add: wellFormed_def Object_keys_def)
  from assms(3) have p: "js ''__proto__'' \<notin> fst ` set obj"
    by (simp add: Object_keys_def)
  from d have g: "\<forall>(k, v) \<in> set obj. getOwn obj k = Some v"
    by (auto simp: getOwn_def)
  from assms(2) have "sort (Object_keys obj) = map fst obj"
    by (simp add: Object_keys_def sort_key_id_if_sorted)
  with rebuild_suffix [OF d i p g] show ?thesis
    by (simp add: sortScripts_def)
qed

text \<open>
  Claim C9 says that the sort step gives back, unchanged, a mapping whose keys are
  already ascending. The program does not do so for a mapping with a key \<open>__proto__\<close>:
  the assignment of line 99 reaches the setter of \<open>Object.prototype\<close> and the entry is
  lost. Here the manifest of exercise 06 holds such a script next to the two entries of
  a previous run; the keys are ascending, and the step returns one entry less.
\<close>

theorem sortScripts_drops_proto:
  "wellFormed [(js ''__proto__'', js ''echo p''), (js ''build:ex06'', js ''ng build exercise-06-routing''),
               (js ''start:ex06'', js ''ng serve exercise-06-routing --port 4206'')] \<and>
   sorted (Object_keys
     [(js ''__proto__'', js ''echo p''), (js ''build:ex06'', js ''ng build exercise-06-routing''),
      (js ''start:ex06'', js ''ng serve exercise-06-routing --port 4206'')]) \<and>
   sortScripts [(js ''__proto__'', js ''echo p''), (js ''build:ex06'', js ''ng build exercise-06-routing''),
                (js ''start:ex06'', js ''ng serve exercise-06-routing --port 4206'')]
     = [(js ''build:ex06'', js ''ng build exercise-06-routing''),
        (js ''start:ex06'', js ''ng serve exercise-06-routing --port 4206'')] \<and>
   updateScripts (js ''06'') (js ''exercise-06-routing'') (Number 4206)
       [(js ''__proto__'', js ''echo p''), (js ''build:ex06'', js ''ng build exercise-06-routing''),
        (js ''start:ex06'', js ''ng serve exercise-06-routing --port 4206'')]
     = [(js ''build:ex06'', js ''ng build exercise-06-routing''),
        (js ''start:ex06'', js ''ng serve exercise-06-routing --port 4206'')]"
  by (simp add: wellFormed_def updateScripts_def sortScripts_def setProperty_def Object_keys_def
        getOwn_def isArrayIndex_def isDigit_def js_def shortName_def startCommand_def buildCommand_def
        String_of_exact decimal.simps digitChar_def)

subsection \<open>Runs of the program\<close>

text \<open>
  Claim C5. Without a topic argument the program prints the three lines of the usage
  error on standard error and exits with status 1. It makes no other call: the
  directory is not looked at, the generator is not run, no file is read or written.
\<close>

theorem missing_argument:
  "argv2 e = None \<Longrightarrow>
     exitCode (main e) = 1 \<and>
     trace (main e) = [ConsoleError (js ''Error: Please provide an exercise name''),
                       ConsoleError (js ''Usage: npm run create-exercise <exercise-name>''),
                       ConsoleError (js ''Example: npm run create-exercise routing'')] \<and>
     list_all (\<lambda>ev. \<not> isSideEffect ev) (trace (main e))"
  by (simp add: main_def usageError_def)

text \<open>The theorem in an environment where every call would succeed.\<close>

theorem missing_argument_witness:
  "argv2 (\<lparr>argv2 = None, existsSync = (\<lambda>f. True),
            readdirSync = (\<lambda>f. Inr [js ''exercise-01-basics'']),
            execSync = (\<lambda>c. None),
            readManifest = (\<lambda>f. Inr \<lparr>scripts = []\<rparr>),
            writeFileSync = (\<lambda>f t. None),
            argumentLimit = 100000, unicodeUpper = (\<lambda>c. [c])\<rparr> :: unit env) = None \<and>
   exitCode (main (\<lparr>argv2 = None, existsSync = (\<lambda>f. True),
            readdirSync = (\<lambda>f. Inr [js ''exercise-01-basics'']),
            execSync = (\<lambda>c. None),
            readManifest = (\<lambda>f. Inr \<lparr>scripts = []\<rparr>),
            writeFileSync = (\<lambda>f t. None),
            argumentLimit = 100000, unicodeUpper = (\<lambda>c. [c])\<rparr> :: unit env)) = 1 \<and>
   list_all (\<lambda>ev. \<not> isSideEffect ev)
     (trace (main (\<lparr>argv2 = None, existsSync = (\<lambda>f. True),
            readdirSync = (\<lambda>f. Inr [js ''exercise-01-basics'']),
            execSync = (\<lambda>c. None),
            readManifest = (\<lambda>f. Inr \<lparr>scripts = []\<rparr>),
            writeFileSync = (\<lambda>f t. None),
            argumentLimit = 100000, unicodeUpper = (\<lambda>c. [c])\<rparr> :: unit env)))"
proof -
  let ?e = "\<lparr>argv2 = None, existsSync = (\<lambda>f. True),
            readdirSync = (\<lambda>f. Inr [js ''exercise-01-basics'']),
            execSync = (\<lambda>c. None),
            readManifest = (\<lambda>f. Inr \<lparr>scripts = []\<rparr>),
            writeFileSync = (\<lambda>f t. None),
            argumentLimit = 100000, unicodeUpper = (\<lambda>c. [c])\<rparr> :: unit env"
  have a: "argv2 ?e = None" by simp
  from missing_argument [OF a] a show ?thesis by blast
qed

text \<open>
  Claim C10. The empty string as topic is rejected like a missing topic: the run is the
  run without an argument, that is the usage error on standard error, exit status 1 and
  no other call.
\<close>

theorem empty_argument:
  "argv2 e = Some [] \<Longrightarrow>
     main e = main (e\<lparr>argv2 := None\<rparr>) \<and>
     exitCode (main e) = 1 \<and>
     trace (main e) = [ConsoleError (js ''Error: Please provide an exercise name''),
                       ConsoleError (js ''Usage: npm run create-exercise <exercise-name>''),
                       ConsoleError (js ''Example: npm run create-exercise routing'')] \<and>
     list_all (\<lambda>ev. \<not> isSideEffect ev) (trace (main e))"
  by (simp add: main_def usageError_def)

text \<open>The theorem in an environment where every call would succeed.\<close>

theorem empty_argument_witness:
  "argv2 (\<lparr>argv2 = Some [], existsSync = (\<lambda>f. True),
            readdirSync = (\<lambda>f. Inr [js ''exercise-01-basics'']),
            execSync = (\<lambda>c. None),
            readManifest = (\<lambda>f. Inr \<lparr>scripts = []\<rparr>),
            writeFileSync = (\<lambda>f t. None),
            argumentLimit = 100000, unicodeUpper = (\<lambda>c. [c])\<rparr> :: unit env) = Some [] \<and>
   exitCode (main (\<lparr>argv2 = Some [], existsSync = (\<lambda>f. True),
            readdirSync = (\<lambda>f. Inr [js ''exercise-01-basics'']),
            execSync = (\<lambda>c. None),
            readManifest = (\<lambda>f. Inr \<lparr>scripts = []\<rparr>),
            writeFileSync = (\<lambda>f t. None),
            argumentLimit = 100000, unicodeUpper = (\<lambda>c. [c])\<rparr> :: unit env)) = 1 \<and>
   list_all (\<lambda>ev. \<not> isSideEffect ev)
     (trace (main (\<lparr>argv2 = Some [], existsSync = (\<lambda>f. True),
            readdirSync = (\<lambda>f. Inr [js ''exercise-01-basics'']),
            execSync = (\<lambda>c. None),
            readManifest = (\<lambda>f. Inr \<lparr>scripts = []\<rparr>),
            writeFileSync = (\<lambda>f t. None),
            argumentLimit = 100000, unicodeUpper = (\<lambda>c. [c])\<rparr> :: unit env)))"
proof -
  let ?e = "\<lparr>argv2 = Some [], existsSync = (\<lambda>f. True),
            readdirSync = (\<lambda>f. Inr [js ''exercise-01-basics'']),
            execSync = (\<lambda>c. None),
            readManifest = (\<lambda>f. Inr \<lparr>scripts = []\<rparr>),
            writeFileSync = (\<lambda>f t. None),
            argumentLimit = 100000, unicodeUpper = (\<lambda>c. [c])\<rparr> :: unit env"
  have a: "argv2 ?e = Some []" by simp
  from empty_argument [OF a] a show ?thesis by blast
qed

text \<open>
  The run in which no call throws: the generator, the read of the manifest, the two
  writes and the summary, with exit status 0.
\<close>

lemma main_success:
  assumes "argv2 e = Some exerciseName" and "exerciseName \<noteq> []"
    and "readProjects e = (t, Inr listing)"
    and "nextNumber (argumentLimit e) listing = Inr n"
    and "padded = paddedNumber n"
    and "full = fullExerciseName padded exerciseName"
    and "p = port n"
    and "execSync e (generateCommand full) = None"
    and "readManifest e packageJsonPath = Inr packageJson"
    and "writeFileSync e packageJsonPath (JsonText (updateManifest padded full p packageJson)) = None"
    and "writeFileSync e (readmePath full)
           (PlainText (exerciseReadme (unicodeUpper e) padded exerciseName p)) = None"
  shows "main e =
     \<lparr>trace = t @ announcement full p @
        [ConsoleLog (js ''Step 1: Generating Angular application...''),
         ExecSync (generateCommand full),
         ConsoleLog (js ''\<newline>Step 2: Updating package.json...''),
         ReadFileSync packageJsonPath,
         WriteFileSync packageJsonPath (JsonText (updateManifest padded full p packageJson)),
         ConsoleLog (js ''Step 3: Creating exercise README...''),
         WriteFileSync (readmePath full)
           (PlainText (exerciseReadme (unicodeUpper e) padded exerciseName p))] @
        summary padded full p,
      exitCode = 0\<rparr>"
  using assms by (simp add: main_def create_def tryBlock_def Let_def)

text \<open>
  A listing with more entries than one call takes as arguments ends the run at the call
  of \<open>Math.max\<close>, before anything is announced.
\<close>

lemma main_rangeError:
  assumes "argv2 e = Some exerciseName" and "exerciseName \<noteq> []"
    and "readProjects e = (t, Inr listing)"
    and "nextNumber (argumentLimit e) listing = Inl err"
  shows "main e = \<lparr>trace = t @ [Uncaught err], exitCode = 1\<rparr>"
  using assms by (simp add: main_def)

lemma readProjects_trace: "readProjects e = (t, r) \<Longrightarrow> list_all (\<lambda>ev. \<not> isFileAccess ev) t"
  by (auto simp: readProjects_def split: if_splits)

lemma create_generator_failure:
  assumes "execSync e (generateCommand (fullExerciseName (paddedNumber n) exerciseName)) = Some err"
  shows "create e exerciseName n =
     \<lparr>trace = announcement (fullExerciseName (paddedNumber n) exerciseName) (port n) @
        [ConsoleLog (js ''Step 1: Generating Angular application...''),
         ExecSync (generateCommand (fullExerciseName (paddedNumber n) exerciseName)),
         failureReport err],
      exitCode = 1\<rparr>"
  using assms by (simp add: create_def tryBlock_def Let_def)

text \<open>
  Claim C4. When the generator throws, the program makes no call that reads or writes a
  file: after the directory listing and the announcements come the call of the
  generator and the report of the error on standard error, with the message of the
  error, and nothing else. The exit status is 1. The manifest and the README are
  written nowhere but in the two calls that are not reached, so the program leaves them
  as they were.
\<close>

theorem generator_failure:
  assumes "argv2 e = Some exerciseName" and "exerciseName \<noteq> []"
    and "readProjects e = (t, Inr listing)"
    and "nextNumber (argumentLimit e) listing = Inr n"
    and "execSync e (generateCommand
           (fullExerciseName (paddedNumber n) exerciseName)) = Some err"
  shows "exitCode (main e) = 1 \<and>
     trace (main e) =
       t @ announcement (fullExerciseName (paddedNumber n) exerciseName) (port n) @
       [ConsoleLog (js ''Step 1: Generating Angular application...''),
        ExecSync (generateCommand (fullExerciseName (paddedNumber n) exerciseName)),
        ConsoleError (js ''\<newline>'' @ [0x274C] @ js '' Error creating exercise: '' @ err)] \<and>
     list_all (\<lambda>ev. \<not> isFileAccess ev) (trace (main e))"
proof -
  have m: "main e =
     \<lparr>trace = t @ announcement (fullExerciseName (paddedNumber n) exerciseName) (port n) @
        [ConsoleLog (js ''Step 1: Generating Angular application...''),
         ExecSync (generateCommand (fullExerciseName (paddedNumber n) exerciseName)),
         failureReport err],
      exitCode = 1\<rparr>"
    using assms(1-4) by (simp add: main_def create_generator_failure [OF assms(5)])
  have "list_all (\<lambda>ev. \<not> isFileAccess ev) t"
    by (rule readProjects_trace [OF assms(3)])
  then show ?thesis
    by (simp add: m announcement_def failureReport_def js_def)
qed

text \<open>
  The theorem for topic \<open>routing\<close> after exercise 05, with a generator that fails.
\<close>

theorem generator_failure_witness:
  "exitCode (main \<lparr>argv2 = Some (js ''routing''),
           existsSync = (\<lambda>f. True),
           readdirSync = (\<lambda>f. Inr [js ''exercise-05-services'']),
           execSync = (\<lambda>c. Some (js ''Command failed: ng generate application'')),
           readManifest = (\<lambda>f. Inr \<lparr>scripts = [(js ''start:ex01'', js ''x''), (js ''zzz'', js ''y'')]\<rparr>),
           writeFileSync = (\<lambda>f t. None),
           argumentLimit = 100000, unicodeUpper = (\<lambda>c. [c])\<rparr>) = 1 \<and>
   list_all (\<lambda>ev. \<not> isFileAccess ev) (trace (main \<lparr>argv2 = Some (js ''routing''),
           existsSync = (\<lambda>f. True),
           readdirSync = (\<lambda>f. Inr [js ''exercise-05-services'']),
           execSync = (\<lambda>c. Some (js ''Command failed: ng generate application'')),
           readManifest = (\<lambda>f. Inr \<lparr>scripts = [(js ''start:ex01'', js ''x''), (js ''zzz'', js ''y'')]\<rparr>),
           writeFileSync = (\<lambda>f t. None),
           argumentLimit = 100000, unicodeUpper = (\<lambda>c. [c])\<rparr>))"
proof -
  let ?e = "\<lparr>argv2 = Some (js ''routing''),
           existsSync = (\<lambda>f. True),
           readdirSync = (\<lambda>f. Inr [js ''exercise-05-services'']),
           execSync = (\<lambda>c. Some (js ''Command failed: ng generate application'')),
           readManifest = (\<lambda>f. Inr \<lparr>scripts = [(js ''start:ex01'', js ''x''), (js ''zzz'', js ''y'')]\<rparr>),
           writeFileSync = (\<lambda>f t. None),
           argumentLimit = 100000, unicodeUpper = (\<lambda>c. [c])\<rparr> :: unit env"
  have a: "argv2 ?e = Some (js ''routing'')" and b: "js ''routing'' \<noteq> []"
    by (simp_all add: js_def)
  have c: "readProjects ?e = ([ExistsSync projectsDir, ReaddirSync projectsDir],
      Inr (Some [js ''exercise-05-services'']))"
    by (simp add: readProjects_def)
  have n: "nextNumber (argumentLimit ?e) (Some [js ''exercise-05-services'']) = Inr (Number 6)"
    by (simp add: evalAlloc split del: if_split)
  have d: "execSync ?e (generateCommand (fullExerciseName (paddedNumber (Number 6)) (js ''routing'')))
      = Some (js ''Command failed: ng generate application'')"
    by simp
  from generator_failure [OF a b c n d] show ?thesis by blast
qed

subsection \<open>The heading of the README\<close>


text \<open>
  A topic outside ASCII: with the case tables mapping \<open>U+00F1\<close> to \<open>U+00D1\<close>, the
  topic \<open>U+00F1 a - b\<close> gets the heading that ends in \<open>U+00D1 a\<close>, a space and \<open>b\<close>.
\<close>

lemma heading_beyond_ascii:
  "upper 0xF1 = [0xD1] \<Longrightarrow>
     heading upper (js ''07'') ([0xF1] @ js ''a-b'') = js ''Exercise 07: '' @ [0xD1] @ js ''a b''"
  by (simp add: heading_def toUpperCase_def charAt0_def slice1_def replaceHyphens_def js_def)

end
